theory Spec2Isabelle
  imports Main
begin

section \<open>JavaScript values\<close>

text \<open>
  The values the add-in handles are the values of JSON plus \<open>undefined\<close>. An object is an
  association list in insertion order; a property is read from its first binding. Numbers
  are the integers: JavaScript represents every integer below \<open>2^53\<close> in magnitude exactly,
  which covers every millisecond timestamp \<open>Date.now()\<close> returns. The number \<open>NaN\<close> only
  arises as a result of \<open>parseInt\<close> and is the value \<open>None\<close> of an \<open>int option\<close>.
\<close>

datatype jsval =
    Undefined
  | Null
  | Bool bool
  | Num int
  | Str string
  | Arr "jsval list"
  | Obj "(string \<times> jsval) list"

text \<open>
  A text (a string held in \<open>localStorage\<close> or the body of a response) is classified by what
  \<open>JSON.parse\<close> does with it: the empty string, a non-empty string that \<open>JSON.parse\<close>
  rejects, or a string that \<open>JSON.parse\<close> maps to a value.
\<close>

datatype jstext = EmptyText | Malformed | Json jsval

text \<open>
  Every \<open>throw\<close> of the source and every exception the runtime raises on the modelled
  paths: \<open>TypeError\<close> (a property read on \<open>null\<close> or \<open>undefined\<close>, a call of something
  that is no function), \<open>SyntaxError\<close> (\<open>JSON.parse\<close> and \<open>response.json()\<close> on text
  that is not JSON), \<open>FetchFailed\<close> (\<open>fetch\<close> rejects: no response arrived), and the
  \<open>Error\<close>s the service creates itself, named by their message.
\<close>

datatype error =
    TypeError
  | SyntaxError
  | FetchFailed
  | NotAuthenticated
  | NoRefreshToken
  | RefreshExpired
  | RetryFailed nat
  | ApiCallFailed nat jstext
  | AuthExpired

text \<open>\<open>!v\<close> is \<open>\<not> truthy v\<close>.\<close>

fun truthy :: "jsval \<Rightarrow> bool" where
  "truthy Undefined = False"
| "truthy Null = False"
| "truthy (Bool b) = b"
| "truthy (Num n) = (n \<noteq> 0)"
| "truthy (Str s) = (s \<noteq> [])"
| "truthy (Arr xs) = True"
| "truthy (Obj kvs) = True"

text \<open>
  \<open>v.k\<close>: reading a property of \<open>null\<close> or \<open>undefined\<close> raises; a missing property reads as
  \<open>undefined\<close>; strings and arrays have a \<open>length\<close>.
\<close>

fun js_get :: "jsval \<Rightarrow> string \<Rightarrow> error + jsval" where
  "js_get Undefined k = Inl TypeError"
| "js_get Null k = Inl TypeError"
| "js_get (Obj kvs) k = Inr (case map_of kvs k of None \<Rightarrow> Undefined | Some v \<Rightarrow> v)"
| "js_get (Str s) k = Inr (if k = ''length'' then Num (int (length s)) else Undefined)"
| "js_get (Arr xs) k = Inr (if k = ''length'' then Num (int (length xs)) else Undefined)"
| "js_get (Bool b) k = Inr Undefined"
| "js_get (Num n) k = Inr Undefined"

text \<open>\<open>o.k = v\<close> on an object: an existing key keeps its place, a new one goes last.\<close>

fun js_set :: "(string \<times> jsval) list \<Rightarrow> string \<Rightarrow> jsval \<Rightarrow> (string \<times> jsval) list" where
  "js_set [] k v = [(k, v)]"
| "js_set ((k', v') # kvs) k v = (if k' = k then (k, v) # kvs else (k', v') # js_set kvs k v)"

text \<open>\<open>delete o[k]\<close>.\<close>

definition js_delete :: "(string \<times> jsval) list \<Rightarrow> string \<Rightarrow> (string \<times> jsval) list" where
  "js_delete kvs k = filter (\<lambda>kv. fst kv \<noteq> k) kvs"

text \<open>\<open>xs.join(sep)\<close> on an array of strings.\<close>

fun join :: "string \<Rightarrow> string list \<Rightarrow> string" where
  "join sep [] = []"
| "join sep [x] = x"
| "join sep (x # y # ys) = x @ sep @ join sep (y # ys)"

fun show_nat :: "nat \<Rightarrow> string" where
  "show_nat n =
     (if n < 10 then [''0123456789'' ! n]
      else show_nat (n div 10) @ [''0123456789'' ! (n mod 10)])"

text \<open>
  The string conversion of a template literal \<open>`${v}`\<close>. An array joins its elements with
  commas, \<open>null\<close> and \<open>undefined\<close> elements as the empty string. A number is printed in
  decimal, which is what JavaScript prints for an integer below 1e21 in magnitude.
\<close>

fun js_toString :: "jsval \<Rightarrow> string" where
  "js_toString Undefined = ''undefined''"
| "js_toString Null = ''null''"
| "js_toString (Bool b) = (if b then ''true'' else ''false'')"
| "js_toString (Num n) = (if n < 0 then ''-'' @ show_nat (nat (- n)) else show_nat (nat n))"
| "js_toString (Str s) = s"
| "js_toString (Arr xs) =
     join '','' (map (\<lambda>v. if v = Undefined \<or> v = Null then [] else js_toString v) xs)"
| "js_toString (Obj kvs) = ''[object Object]''"

text \<open>
  \<open>JSON.parse(JSON.stringify(v))\<close>: what is left of a value once it has been written as
  JSON. A property whose value is \<open>undefined\<close> is dropped, an \<open>undefined\<close> array element
  becomes \<open>null\<close>.
\<close>

fun to_json :: "jsval \<Rightarrow> jsval" where
  "to_json (Arr xs) = Arr (map (\<lambda>v. if v = Undefined then Null else to_json v) xs)"
| "to_json (Obj kvs) =
     Obj (map (\<lambda>kv. (fst kv, to_json (snd kv))) (filter (\<lambda>kv. snd kv \<noteq> Undefined) kvs))"
| "to_json v = v"

definition JSON_stringify :: "jsval \<Rightarrow> jstext" where
  "JSON_stringify v = Json (to_json v)"

text \<open>\<open>JSON.parse(t)\<close> for a text, and for \<open>null\<close> (an absent item), which parses as \<open>null\<close>.\<close>

fun JSON_parse_text :: "jstext \<Rightarrow> error + jsval" where
  "JSON_parse_text EmptyText = Inl SyntaxError"
| "JSON_parse_text Malformed = Inl SyntaxError"
| "JSON_parse_text (Json v) = Inr v"

fun JSON_parse :: "jstext option \<Rightarrow> error + jsval" where
  "JSON_parse None = Inr Null"
| "JSON_parse (Some t) = JSON_parse_text t"

section \<open>The expiry check of the task pane\<close>

definition is_space :: "char \<Rightarrow> bool" where
  "is_space c = (c \<in> set [CHR 0x09, CHR 0x0A, CHR 0x0B, CHR 0x0C, CHR 0x0D, CHR '' ''])"

text \<open>The value of a digit in radix up to 36; 36 for a character that is no digit.\<close>

definition digit_of :: "char \<Rightarrow> nat" where
  "digit_of c =
     (let n = (of_char c :: nat) in
      if 48 \<le> n \<and> n \<le> 57 then n - 48
      else if 97 \<le> n \<and> n \<le> 122 then n - 87
      else if 65 \<le> n \<and> n \<le> 90 then n - 55
      else 36)"

text \<open>
  \<open>parseInt(v)\<close> with no radix: the argument is converted to a string, leading white space
  and a sign are skipped, a prefix \<open>0x\<close> or \<open>0X\<close> selects radix 16, and the longest run
  of digits is read. No digit at all gives \<open>NaN\<close>. The model is exact where JavaScript
  is: it skips the six ASCII white-space characters only (not the Unicode ones, such as
  U+00A0), it reads an integer of any size exactly (JavaScript rounds one of 2^53 or more
  to a double), and a number argument is printed in full before it is read (JavaScript
  prints a magnitude of 1e21 or more in exponent form).
\<close>

definition parseInt :: "jsval \<Rightarrow> int option" where
  "parseInt v =
     (let s = dropWhile is_space (js_toString v);
          neg = (take 1 s = ''-'');
          s1 = (if take 1 s = ''-'' \<or> take 1 s = ''+'' then drop 1 s else s);
          hex = (take 2 s1 = ''0x'' \<or> take 2 s1 = ''0X'');
          radix = (if hex then 16 else 10);
          s2 = (if hex then drop 2 s1 else s1);
          ds = takeWhile (\<lambda>c. digit_of c < radix) s2;
          m = foldl (\<lambda>a c. a * radix + digit_of c) 0 ds
      in if ds = [] then None else Some (if neg then - int m else int m))"

text \<open>\<open>now - issuedAt\<close> and \<open>d > t\<close> on numbers that may be \<open>NaN\<close>.\<close>

fun js_minus :: "int \<Rightarrow> int option \<Rightarrow> int option" where
  "js_minus a None = None"
| "js_minus a (Some b) = Some (a - b)"

fun js_greater :: "int option \<Rightarrow> int \<Rightarrow> bool" where
  "js_greater None t = False"
| "js_greater (Some d) t = (d > t)"

definition expirationTime :: int where
  "expirationTime = 2 * 60 * 60 * 1000"

text \<open>\<open>isTokenExpired(session)\<close>, with the value of \<open>Date.now()\<close> as a parameter.\<close>

definition isTokenExpired :: "int \<Rightarrow> jsval \<Rightarrow> error + bool" where
  "isTokenExpired now session =
     (case js_get session ''issued_at'' of
        Inl e \<Rightarrow> Inl e
      | Inr issued_at \<Rightarrow>
          if \<not> truthy issued_at then Inr True
          else let issuedAt = parseInt issued_at
               in Inr (js_greater (js_minus now issuedAt) expirationTime))"

section \<open>The world the service runs in\<close>

text \<open>
  A request is what \<open>fetch(url, options)\<close> puts on the wire. The body of an API request is
  the JSON text of the data; the body of a token request is a \<open>URLSearchParams\<close> form.
\<close>

datatype payload = JsonBody jstext | FormBody "(string \<times> string) list"

record request =
  req_url :: string
  req_method :: string
  req_headers :: "(string \<times> string) list"
  req_body :: "payload option"

text \<open>\<open>fetch\<close> either rejects (no response) or resolves to a response: a status and a body.\<close>

datatype reply = NoResponse | Response nat jstext

text \<open>\<open>response.ok\<close>.\<close>

definition ok :: "nat \<Rightarrow> bool" where
  "ok status = (200 \<le> status \<and> status \<le> 299)"

text \<open>
  The remote system answers a request knowing every exchange that came before it, so a
  remote may change its answers from one request to the next.
\<close>

type_synonym exchange = "request \<times> reply"
type_synonym remote = "exchange list \<Rightarrow> request \<Rightarrow> reply"

text \<open>
  The state a call can read and write: the two credential fields of the service object,
  the item \<open>salesforceSession\<close> of \<open>localStorage\<close> (\<open>None\<close> when \<open>getItem\<close> returns
  \<open>null\<close>), and the log of the exchanges made so far, oldest first.
\<close>

record world =
  accessToken :: jsval
  instanceUrl :: jsval
  salesforceSession :: "jstext option"
  sent :: "exchange list"

definition fetch :: "remote \<Rightarrow> request \<Rightarrow> world \<Rightarrow> (error + nat \<times> jstext) \<times> world" where
  "fetch remote req s =
     (let rep = remote (sent s) req;
          s' = s\<lparr>sent := sent s @ [(req, rep)]\<rparr>
      in case rep of
           NoResponse \<Rightarrow> (Inl FetchFailed, s')
         | Response status btext \<Rightarrow> (Inr (status, btext), s'))"

text \<open>
  \<open>o.k = v\<close> in strict mode (a class body): on a primitive it raises. A named property of
  an array is not part of its JSON text, so the array is left as it is.
\<close>

fun js_assign :: "jsval \<Rightarrow> string \<Rightarrow> jsval \<Rightarrow> error + jsval" where
  "js_assign (Obj kvs) k v = Inr (Obj (js_set kvs k v))"
| "js_assign (Arr xs) k v = Inr (Arr xs)"
| "js_assign w k v = Inl TypeError"

section \<open>refreshToken\<close>

text \<open>
  Lines 143 to 151 of \<open>refreshToken\<close>: the token response is parsed, the new access token
  is cached, and the session read at the start is written back with the new
  \<open>access_token\<close> and \<open>issued_at\<close>.
\<close>

definition storeRefreshed :: "jsval \<Rightarrow> jstext \<Rightarrow> world \<Rightarrow> (error + jsval) \<times> world" where
  "storeRefreshed session btext s1 =
     (case JSON_parse_text btext of
        Inl e \<Rightarrow> (Inl e, s1)
      | Inr tokenData \<Rightarrow>
         (case js_get tokenData ''access_token'' of
            Inl e \<Rightarrow> (Inl e, s1)
          | Inr access_token \<Rightarrow>
             (let s2 = s1\<lparr>accessToken := access_token\<rparr>
              in (case js_assign session ''access_token'' access_token of
                    Inl e \<Rightarrow> (Inl e, s2)
                  | Inr session1 \<Rightarrow>
                     (case js_get tokenData ''issued_at'' of
                        Inl e \<Rightarrow> (Inl e, s2)
                      | Inr issued_at \<Rightarrow>
                         (case js_assign session1 ''issued_at'' issued_at of
                            Inl e \<Rightarrow> (Inl e, s2)
                          | Inr session2 \<Rightarrow>
                              (Inr tokenData,
                               s2\<lparr>salesforceSession := Some (JSON_stringify session2)\<rparr>)))))))"

text \<open>Lines 121 to 135 of \<open>refreshToken\<close>: the refresh-token grant posted to the token URL.\<close>

definition tokenRequest :: "world \<Rightarrow> jsval \<Rightarrow> jsval \<Rightarrow> request" where
  "tokenRequest s refresh_token clientId =
     (let tokenUrl = js_toString (instanceUrl s) @ ''/services/oauth2/token'';
          params = [(''grant_type'', ''refresh_token''),
                    (''refresh_token'', js_toString refresh_token),
                    (''client_id'', js_toString clientId)]
      in \<lparr>req_url = tokenUrl, req_method = ''POST'',
          req_headers = [(''Content-Type'', ''application/x-www-form-urlencoded'')],
          req_body = Some (FormBody params)\<rparr>)"

definition refreshToken :: "remote \<Rightarrow> jsval \<Rightarrow> world \<Rightarrow> (error + jsval) \<times> world" where
  "refreshToken remote clientId s =
     (case JSON_parse (salesforceSession s) of
        Inl e \<Rightarrow> (Inl e, s)
      | Inr session \<Rightarrow>
          if \<not> truthy session then (Inl NoRefreshToken, s)
          else
           (case js_get session ''refresh_token'' of
              Inl e \<Rightarrow> (Inl e, s)
            | Inr refresh_token \<Rightarrow>
                if \<not> truthy refresh_token then (Inl NoRefreshToken, s)
                else
                  (case fetch remote (tokenRequest s refresh_token clientId) s of
                     (Inl e, s1) \<Rightarrow> (Inl e, s1)
                   | (Inr (status, btext), s1) \<Rightarrow>
                       if \<not> ok status then (Inl RefreshExpired, s1\<lparr>salesforceSession := None\<rparr>)
                       else storeRefreshed session btext s1)))"

section \<open>apiCall\<close>

definition apiVersion :: string where
  "apiVersion = ''v58.0''"

text \<open>Lines 158 to 166: the read-through from \<open>localStorage\<close> when no token is cached.\<close>

definition resolveCredentials :: "world \<Rightarrow> (error + unit) \<times> world" where
  "resolveCredentials s =
     (if \<not> truthy (accessToken s) then
        (case JSON_parse (salesforceSession s) of
           Inl e \<Rightarrow> (Inl e, s)
         | Inr session \<Rightarrow>
             if \<not> truthy session then (Inl NotAuthenticated, s)
             else
              (case js_get session ''access_token'' of
                 Inl e \<Rightarrow> (Inl e, s)
               | Inr access_token \<Rightarrow>
                   if truthy access_token then
                     (case js_get session ''instance_url'' of
                        Inl e \<Rightarrow> (Inl e, s)
                      | Inr instance_url \<Rightarrow>
                          (Inr (), s\<lparr>accessToken := access_token, instanceUrl := instance_url\<rparr>))
                   else (Inl NotAuthenticated, s)))
      else (Inr (), s))"

definition set_header :: "string \<Rightarrow> string \<Rightarrow> (string \<times> string) list \<Rightarrow> (string \<times> string) list" where
  "set_header k v hs = map (\<lambda>h. if fst h = k then (k, v) else h) hs"

text \<open>Lines 187 to 194: the body of the \<open>try\<close> block entered on a 401.\<close>

definition refreshAndRetry :: "remote \<Rightarrow> request \<Rightarrow> world \<Rightarrow> (error + jsval) \<times> world" where
  "refreshAndRetry remote options s =
     (case refreshToken remote Undefined s of
        (Inl e, s1) \<Rightarrow> (Inl e, s1)
      | (Inr tokenData, s1) \<Rightarrow>
          let options1 = options\<lparr>req_headers :=
                 set_header ''Authorization'' (''Bearer '' @ js_toString (accessToken s1))
                   (req_headers options)\<rparr>
          in (case fetch remote options1 s1 of
                (Inl e, s2) \<Rightarrow> (Inl e, s2)
              | (Inr (status, btext), s2) \<Rightarrow>
                  if \<not> ok status then (Inl (RetryFailed status), s2)
                  else (case JSON_parse_text btext of
                          Inl e \<Rightarrow> (Inl e, s2)
                        | Inr v \<Rightarrow> (Inr v, s2))))"

text \<open>
  Lines 168 to 180 of \<open>apiCall\<close>: the URL and the options of the request. The options
  get a body only for data that is given and a method that carries one.
\<close>

definition apiRequest :: "world \<Rightarrow> string \<Rightarrow> string \<Rightarrow> jsval \<Rightarrow> request" where
  "apiRequest s endpoint method data =
     (let url = js_toString (instanceUrl s) @ ''/services/data/'' @ apiVersion @ ''/'' @ endpoint
      in \<lparr>req_url = url, req_method = method,
          req_headers = [(''Authorization'', ''Bearer '' @ js_toString (accessToken s)),
                         (''Content-Type'', ''application/json'')],
          req_body = (if truthy data \<and> (method = ''POST'' \<or> method = ''PATCH'' \<or> method = ''PUT'')
                      then Some (JsonBody (JSON_stringify data)) else None)\<rparr>)"

definition apiCall :: "remote \<Rightarrow> string \<Rightarrow> string \<Rightarrow> jsval \<Rightarrow> world \<Rightarrow> (error + jsval) \<times> world" where
  "apiCall remote endpoint method data s =
     (case resolveCredentials s of
        (Inl e, s0) \<Rightarrow> (Inl e, s0)
      | (Inr u, s0) \<Rightarrow>
          let options = apiRequest s0 endpoint method data
          in (case fetch remote options s0 of
                (Inl e, s1) \<Rightarrow> (Inl e, s1)
              | (Inr (status, btext), s1) \<Rightarrow>
                  if status = 401 then
                    (case refreshAndRetry remote options s1 of
                       (Inl refreshError, s2) \<Rightarrow> (Inl AuthExpired, s2)
                     | (Inr v, s2) \<Rightarrow> (Inr v, s2))
                  else if \<not> ok status then (Inl (ApiCallFailed status btext), s1)
                  else if status = 204 then (Inr (Obj []), s1)
                  else (case JSON_parse_text btext of
                          Inl e \<Rightarrow> (Inl e, s1)
                        | Inr v \<Rightarrow> (Inr v, s1))))"

text \<open>
  \<open>encodeURIComponent\<close>: letters, digits and \<open>- _ . ! ~ * ' ( )\<close> stay; every other byte
  of the string becomes \<open>%XX\<close> in upper-case hexadecimal.
\<close>

definition unreserved :: "char \<Rightarrow> bool" where
  "unreserved c =
     (let n = (of_char c :: nat) in
      (48 \<le> n \<and> n \<le> 57) \<or> (65 \<le> n \<and> n \<le> 90) \<or> (97 \<le> n \<and> n \<le> 122)
      \<or> c \<in> set (CHR 0x27 # ''-_.!~*()''))"

definition percent :: "char \<Rightarrow> string" where
  "percent c =
     (let n = (of_char c :: nat) in
      [CHR ''%'', ''0123456789ABCDEF'' ! (n div 16), ''0123456789ABCDEF'' ! (n mod 16)])"

definition encodeURIComponent :: "string \<Rightarrow> string" where
  "encodeURIComponent s = concat (map (\<lambda>c. if unreserved c then [c] else percent c) s)"

definition query :: "remote \<Rightarrow> string \<Rightarrow> world \<Rightarrow> (error + jsval) \<times> world" where
  "query remote soql = apiCall remote (''query/?q='' @ encodeURIComponent soql) ''GET'' Null"

definition createRecord :: "remote \<Rightarrow> string \<Rightarrow> jsval \<Rightarrow> world \<Rightarrow> (error + jsval) \<times> world" where
  "createRecord remote objectType recordData =
     apiCall remote (''sobjects/'' @ objectType @ ''/'') ''POST'' recordData"

section \<open>createContact and createLead\<close>

text \<open>
  An object literal: the initialisers are evaluated in order, and the first one that
  raises ends the evaluation.
\<close>

fun object_literal :: "(string \<times> (error + jsval)) list \<Rightarrow> error + (string \<times> jsval) list" where
  "object_literal [] = Inr []"
| "object_literal ((k, Inl e) # fs) = Inl e"
| "object_literal ((k, Inr v) # fs) =
     (case object_literal fs of Inl e \<Rightarrow> Inl e | Inr kvs \<Rightarrow> Inr ((k, v) # kvs))"

text \<open>\<open>d.k || dflt\<close>.\<close>

definition or_default :: "error + jsval \<Rightarrow> jsval \<Rightarrow> error + jsval" where
  "or_default r dflt = (case r of Inl e \<Rightarrow> Inl e | Inr v \<Rightarrow> Inr (if truthy v then v else dflt))"

text \<open>
  \<open>Object.keys(o).forEach(key => { if (!o[key]) delete o[key]; })\<close>: the keys are listed
  once, then each is looked at in turn on the object as it then is.
\<close>

definition removeEmptyFields :: "(string \<times> jsval) list \<Rightarrow> (string \<times> jsval) list" where
  "removeEmptyFields obj =
     foldl (\<lambda>ob key. if \<not> truthy (case map_of ob key of None \<Rightarrow> Undefined | Some v \<Rightarrow> v)
                      then js_delete ob key else ob)
       obj (map fst obj)"

text \<open>Lines 431 to 446 of \<open>createContact\<close>: the record handed to \<open>createRecord\<close>.\<close>

definition contactRecord :: "jsval \<Rightarrow> error + (string \<times> jsval) list" where
  "contactRecord contactData =
     (case object_literal
        [(''FirstName'', js_get contactData ''firstName''),
         (''LastName'', js_get contactData ''lastName''),
         (''Email'', js_get contactData ''email''),
         (''Phone'', js_get contactData ''phone''),
         (''Title'', js_get contactData ''title''),
         (''Department'', js_get contactData ''department''),
         (''Description'', js_get contactData ''description'')] of
        Inl e \<Rightarrow> Inl e
      | Inr contact \<Rightarrow> Inr (removeEmptyFields contact))"

definition createContact :: "remote \<Rightarrow> jsval \<Rightarrow> world \<Rightarrow> (error + jsval) \<times> world" where
  "createContact remote contactData s =
     (case contactRecord contactData of
        Inl e \<Rightarrow> (Inl e, s)
      | Inr contact \<Rightarrow> createRecord remote ''Contact'' (Obj contact) s)"

text \<open>Lines 455 to 472 of \<open>createLead\<close>.\<close>

definition leadRecord :: "jsval \<Rightarrow> error + (string \<times> jsval) list" where
  "leadRecord leadData =
     (case object_literal
        [(''FirstName'', js_get leadData ''firstName''),
         (''LastName'', js_get leadData ''lastName''),
         (''Email'', js_get leadData ''email''),
         (''Phone'', js_get leadData ''phone''),
         (''Company'', js_get leadData ''company''),
         (''Title'', js_get leadData ''title''),
         (''Status'', or_default (js_get leadData ''status'') (Str ''Open - Not Contacted'')),
         (''LeadSource'', or_default (js_get leadData ''source'') (Str ''Email'')),
         (''Description'', js_get leadData ''description'')] of
        Inl e \<Rightarrow> Inl e
      | Inr lead \<Rightarrow> Inr (removeEmptyFields lead))"

definition createLead :: "remote \<Rightarrow> jsval \<Rightarrow> world \<Rightarrow> (error + jsval) \<times> world" where
  "createLead remote leadData s =
     (case leadRecord leadData of
        Inl e \<Rightarrow> (Inl e, s)
      | Inr lead \<Rightarrow> createRecord remote ''Lead'' (Obj lead) s)"

section \<open>findRelatedRecords\<close>

record results =
  contacts :: jsval
  leads :: jsval
  accounts :: jsval
  opportunities :: jsval

definition emptyResults :: results where
  "emptyResults = \<lparr>contacts = Arr [], leads = Arr [], accounts = Arr [], opportunities = Arr []\<rparr>"

text \<open>
  The receiver of \<open>.map(...)\<close> or \<open>.filter(...)\<close>: only an array has these methods, on
  anything else the call raises.
\<close>

fun js_array :: "jsval \<Rightarrow> error + jsval list" where
  "js_array (Arr xs) = Inr xs"
| "js_array v = Inl TypeError"

text \<open>\<open>xs.map(x => `'${x}'`).join(',')\<close>.\<close>

definition quoteList :: "jsval list \<Rightarrow> string" where
  "quoteList xs = join '','' (map (\<lambda>x. [CHR 0x27] @ js_toString x @ [CHR 0x27]) xs)"

text \<open>A line break inside a template literal, followed by the indentation of the next line.\<close>

definition nl :: "nat \<Rightarrow> string" where
  "nl n = CHR 0x0A # replicate n CHR '' ''"

definition contactQuery :: "string \<Rightarrow> string" where
  "contactQuery emailList =
     ''SELECT Id, Name, Email, Account.Name, Account.Id, Title '' @ nl 33 @
     ''FROM Contact '' @ nl 33 @
     ''WHERE Email IN ('' @ emailList @ '')''"

definition accountQuery :: "string \<Rightarrow> string" where
  "accountQuery accountList =
     ''SELECT Id, Name, Type, Industry '' @ nl 41 @
     ''FROM Account '' @ nl 41 @
     ''WHERE Id IN ('' @ accountList @ '')''"

definition oppQuery :: "string \<Rightarrow> string" where
  "oppQuery accountList =
     ''SELECT Id, Name, StageName, Amount, CloseDate, Account.Name '' @ nl 37 @
     ''FROM Opportunity '' @ nl 37 @
     ''WHERE AccountId IN ('' @ accountList @ '') '' @ nl 37 @
     ''AND IsClosed = false '' @ nl 37 @
     ''ORDER BY CloseDate ASC '' @ nl 37 @
     ''LIMIT 10''"

definition leadQuery :: "string \<Rightarrow> string" where
  "leadQuery emailList =
     ''SELECT Id, Name, Email, Company, Title, Status '' @ nl 30 @
     ''FROM Lead '' @ nl 30 @
     ''WHERE Email IN ('' @ emailList @ '') '' @ nl 30 @
     ''AND IsConverted = false''"

text \<open>\<open>contact => contact.Account && contact.Account.Id\<close>, as the test of \<open>filter\<close>.\<close>

definition hasAccountId :: "jsval \<Rightarrow> error + bool" where
  "hasAccountId contact =
     (case js_get contact ''Account'' of
        Inl e \<Rightarrow> Inl e
      | Inr account \<Rightarrow>
          if \<not> truthy account then Inr False
          else (case js_get account ''Id'' of Inl e \<Rightarrow> Inl e | Inr i \<Rightarrow> Inr (truthy i)))"

text \<open>\<open>contact => contact.Account.Id\<close>.\<close>

definition accountIdOf :: "jsval \<Rightarrow> error + jsval" where
  "accountIdOf contact =
     (case js_get contact ''Account'' of
        Inl e \<Rightarrow> Inl e
      | Inr account \<Rightarrow> js_get account ''Id'')"

fun filterE :: "('a \<Rightarrow> error + bool) \<Rightarrow> 'a list \<Rightarrow> error + 'a list" where
  "filterE p [] = Inr []"
| "filterE p (x # xs) =
     (case p x of
        Inl e \<Rightarrow> Inl e
      | Inr b \<Rightarrow> (case filterE p xs of
                   Inl e \<Rightarrow> Inl e
                 | Inr ys \<Rightarrow> Inr (if b then x # ys else ys)))"

fun mapE :: "('a \<Rightarrow> error + 'b) \<Rightarrow> 'a list \<Rightarrow> error + 'b list" where
  "mapE f [] = Inr []"
| "mapE f (x # xs) =
     (case f x of
        Inl e \<Rightarrow> Inl e
      | Inr y \<Rightarrow> (case mapE f xs of Inl e \<Rightarrow> Inl e | Inr ys \<Rightarrow> Inr (y # ys)))"

text \<open>
  \<open>[...new Set(xs)]\<close>: the first occurrence of each value, in order. A \<open>Set\<close> compares
  primitives by value and objects by identity, and the objects of a parsed response are
  all distinct, so an array or object is never a duplicate of another.
\<close>

fun is_primitive :: "jsval \<Rightarrow> bool" where
  "is_primitive (Arr xs) = False"
| "is_primitive (Obj kvs) = False"
| "is_primitive v = True"

fun unique :: "jsval list \<Rightarrow> jsval list \<Rightarrow> jsval list" where
  "unique seen [] = seen"
| "unique seen (x # xs) =
     unique (if is_primitive x \<and> List.member seen x then seen else seen @ [x]) xs"

text \<open>Lines 526 to 549: the accounts and the open opportunities of the matched contacts.\<close>

definition relatedAccounts ::
  "remote \<Rightarrow> jsval list \<Rightarrow> results \<Rightarrow> world \<Rightarrow> (error + unit) \<times> results \<times> world" where
  "relatedAccounts remote accountIds res s =
     (let uniqueAccountIds = unique [] accountIds;
          accountList = quoteList uniqueAccountIds
      in (case query remote (accountQuery accountList) s of
            (Inl e, s1) \<Rightarrow> (Inl e, res, s1)
          | (Inr accountResult, s1) \<Rightarrow>
             (case js_get accountResult ''records'' of
                Inl e \<Rightarrow> (Inl e, res, s1)
              | Inr accountRecords \<Rightarrow>
                 (let res1 = (if truthy accountRecords then res\<lparr>accounts := accountRecords\<rparr> else res)
                  in (case query remote (oppQuery accountList) s1 of
                        (Inl e, s2) \<Rightarrow> (Inl e, res1, s2)
                      | (Inr oppResult, s2) \<Rightarrow>
                         (case js_get oppResult ''records'' of
                            Inl e \<Rightarrow> (Inl e, res1, s2)
                          | Inr oppRecords \<Rightarrow>
                              (Inr (),
                               if truthy oppRecords then res1\<lparr>opportunities := oppRecords\<rparr> else res1,
                               s2)))))))"

text \<open>Lines 517 to 551: what is done with the answer to the Contact query.\<close>

definition relatedToContacts ::
  "remote \<Rightarrow> jsval \<Rightarrow> results \<Rightarrow> world \<Rightarrow> (error + unit) \<times> results \<times> world" where
  "relatedToContacts remote contactResult res s =
     (case js_get contactResult ''records'' of
        Inl e \<Rightarrow> (Inl e, res, s)
      | Inr records \<Rightarrow>
          if \<not> truthy records then (Inr (), res, s)
          else
            (let res1 = res\<lparr>contacts := records\<rparr>
             in (case js_array records of
                   Inl e \<Rightarrow> (Inl e, res1, s)
                 | Inr cs \<Rightarrow>
                    (case filterE hasAccountId cs of
                       Inl e \<Rightarrow> (Inl e, res1, s)
                     | Inr withAccount \<Rightarrow>
                        (case mapE accountIdOf withAccount of
                           Inl e \<Rightarrow> (Inl e, res1, s)
                         | Inr accountIds \<Rightarrow>
                             if length accountIds > 0
                             then relatedAccounts remote accountIds res1 s
                             else (Inr (), res1, s))))))"

text \<open>Lines 509 to 562: the body of the \<open>try\<close> block.\<close>

definition findRelatedBody ::
  "remote \<Rightarrow> jsval \<Rightarrow> results \<Rightarrow> world \<Rightarrow> (error + unit) \<times> results \<times> world" where
  "findRelatedBody remote emailAddresses res s =
     (case js_array emailAddresses of
        Inl e \<Rightarrow> (Inl e, res, s)
      | Inr emails \<Rightarrow>
         (let emailList = quoteList emails
          in (case query remote (contactQuery emailList) s of
                (Inl e, s1) \<Rightarrow> (Inl e, res, s1)
              | (Inr contactResult, s1) \<Rightarrow>
                 (case relatedToContacts remote contactResult res s1 of
                    (Inl e, res1, s2) \<Rightarrow> (Inl e, res1, s2)
                  | (Inr u, res1, s2) \<Rightarrow>
                     (case query remote (leadQuery emailList) s2 of
                        (Inl e, s3) \<Rightarrow> (Inl e, res1, s3)
                      | (Inr leadResult, s3) \<Rightarrow>
                         (case js_get leadResult ''records'' of
                            Inl e \<Rightarrow> (Inl e, res1, s3)
                          | Inr leadRecords \<Rightarrow>
                              (Inr (),
                               if truthy leadRecords then res1\<lparr>leads := leadRecords\<rparr> else res1,
                               s3)))))))"

text \<open>
  \<open>findRelatedRecords\<close>. The guard before the \<open>try\<close> is not protected, so an exception in
  it would reach the caller; whatever the body of the \<open>try\<close> raises is caught and logged,
  and the groups as they are at that moment are returned.
\<close>

definition findRelatedRecords :: "remote \<Rightarrow> jsval \<Rightarrow> world \<Rightarrow> (error + results) \<times> world" where
  "findRelatedRecords remote emailAddresses s =
     (if \<not> truthy emailAddresses then (Inr emptyResults, s)
      else
        (case js_get emailAddresses ''length'' of
           Inl e \<Rightarrow> (Inl e, s)
         | Inr len \<Rightarrow>
             if len = Num 0 then (Inr emptyResults, s)
             else (case findRelatedBody remote emailAddresses emptyResults s of
                     (Inl error, res, s1) \<Rightarrow> (Inr res, s1)
                   | (Inr u, res, s1) \<Rightarrow> (Inr res, s1))))"

section \<open>isAuthenticated and getSessionInfo\<close>

text \<open>\<open>!session\<close> for what \<open>localStorage.getItem\<close> returned: \<open>null\<close> or the empty string.\<close>

fun no_item :: "jstext option \<Rightarrow> bool" where
  "no_item None = True"
| "no_item (Some EmptyText) = True"
| "no_item (Some t) = False"

definition isAuthenticated :: "world \<Rightarrow> bool" where
  "isAuthenticated s =
     (let session = salesforceSession s
      in if no_item session then False
         else
           (case JSON_parse session of
              Inl e \<Rightarrow> False
            | Inr sessionData \<Rightarrow>
               (case js_get sessionData ''access_token'' of
                  Inl e \<Rightarrow> False
                | Inr access_token \<Rightarrow>
                    if \<not> truthy access_token then False
                    else (case js_get sessionData ''instance_url'' of
                            Inl e \<Rightarrow> False
                          | Inr instance_url \<Rightarrow> truthy instance_url))))"

definition getSessionInfo :: "world \<Rightarrow> jsval" where
  "getSessionInfo s =
     (let session = salesforceSession s
      in if no_item session then Null
         else (case JSON_parse session of Inl e \<Rightarrow> Null | Inr v \<Rightarrow> v))"

section \<open>Notions used in the statements\<close>

text \<open>
  An API attempt carries the bearer credential in an \<open>Authorization\<close> header; the
  token request of a refresh does not.
\<close>

definition carries_bearer :: "request \<Rightarrow> bool" where
  "carries_bearer req = (map_of (req_headers req) ''Authorization'' \<noteq> None)"

text \<open>The exchanges a call added to the log, given the worlds before and after it.\<close>

definition new_exchanges :: "world \<Rightarrow> world \<Rightarrow> exchange list" where
  "new_exchanges s s' = drop (length (sent s)) (sent s')"

text \<open>
  A request is an attempt of the call with method \<open>m\<close> and body \<open>b\<close>: it carries the bearer
  credential and has that method and that body.
\<close>

definition has_api_options :: "string \<Rightarrow> payload option \<Rightarrow> request \<Rightarrow> bool" where
  "has_api_options m b req = (carries_bearer req \<and> req_method req = m \<and> req_body req = b)"

text \<open>What \<open>apiCall\<close> makes of the reply to its original request when that is no 401.\<close>

definition first_result :: "reply \<Rightarrow> error + jsval" where
  "first_result rep =
     (case rep of
        NoResponse \<Rightarrow> Inl FetchFailed
      | Response st b \<Rightarrow>
          if \<not> ok st then Inl (ApiCallFailed st b)
          else if st = 204 then Inr (Obj [])
          else JSON_parse_text b)"

text \<open>What the \<open>try\<close> block makes of the reply to the retry.\<close>

definition retry_result :: "reply \<Rightarrow> error + jsval" where
  "retry_result rep =
     (case rep of
        NoResponse \<Rightarrow> Inl FetchFailed
      | Response st b \<Rightarrow> if \<not> ok st then Inl (RetryFailed st) else JSON_parse_text b)"

text \<open>
  The usability invariant of the specification, section 3: the access token and the
  instance URL are both present and the session is not expired at time \<open>now\<close>, by the
  expiry check of the task pane (so a session whose \<open>issued_at\<close> is no number counts as
  within the window here, as it does for that check).
\<close>

definition spec_usable :: "int \<Rightarrow> jsval \<Rightarrow> bool" where
  "spec_usable now session =
     ((case js_get session ''access_token'' of Inl e \<Rightarrow> False | Inr v \<Rightarrow> truthy v) \<and>
      (case js_get session ''instance_url'' of Inl e \<Rightarrow> False | Inr v \<Rightarrow> truthy v) \<and>
      isTokenExpired now session = Inr False)"

text \<open>
  The remote name of each input field that \<open>createContact\<close> copies (lines 432 to 438),
  and of each that \<open>createLead\<close> copies as it is (lines 456 to 464, without \<open>Status\<close> and
  \<open>LeadSource\<close>, which have defaults).
\<close>

definition contactFields :: "(string \<times> string) list" where
  "contactFields =
     [(''FirstName'', ''firstName''), (''LastName'', ''lastName''), (''Email'', ''email''),
      (''Phone'', ''phone''), (''Title'', ''title''), (''Department'', ''department''),
      (''Description'', ''description'')]"

definition leadFields :: "(string \<times> string) list" where
  "leadFields =
     [(''FirstName'', ''firstName''), (''LastName'', ''lastName''), (''Email'', ''email''),
      (''Phone'', ''phone''), (''Company'', ''company''), (''Title'', ''title''),
      (''Description'', ''description'')]"

text \<open>The value of a property read on a value that is neither \<open>null\<close> nor \<open>undefined\<close>.\<close>

definition read_or_undefined :: "jsval \<Rightarrow> string \<Rightarrow> jsval" where
  "read_or_undefined d k = (case js_get d k of Inl e \<Rightarrow> Undefined | Inr v \<Rightarrow> v)"

section \<open>Example worlds and remotes\<close>

text \<open>A session as \<open>exchangeCodeForToken\<close> stores it, issued at time 0.\<close>

definition stored_session :: jsval where
  "stored_session =
     Obj [(''access_token'', Str ''tok''), (''refresh_token'', Str ''ref''),
          (''instance_url'', Str ''https://org.example''), (''issued_at'', Str ''0''),
          (''signature'', Str ''sig'')]"

text \<open>A session as \<open>simulateAuthentication\<close> of the task pane stores it: no refresh token.\<close>

definition mock_session :: jsval where
  "mock_session =
     Obj [(''access_token'', Str ''mock_access_token_0''),
          (''instance_url'', Str ''https://org.example''), (''issued_at'', Str ''0''),
          (''signature'', Str ''mock_signature''), (''token_type'', Str ''Bearer'')]"

text \<open>A service that has a token cached, over a store holding the given item.\<close>

definition signed_in :: "jstext option \<Rightarrow> world" where
  "signed_in item =
     \<lparr>accessToken = Str ''tok'', instanceUrl = Str ''https://org.example'',
      salesforceSession = item, sent = []\<rparr>"

text \<open>A service just constructed, over a store holding the given item.\<close>

definition just_constructed :: "jstext option \<Rightarrow> world" where
  "just_constructed item =
     \<lparr>accessToken = Null, instanceUrl = Null, salesforceSession = item, sent = []\<rparr>"

text \<open>A remote that answers nothing.\<close>

definition silent :: remote where
  "silent h req = NoResponse"

text \<open>
  A remote whose access token has expired: the first API request is answered 401, a token
  request is answered with the given reply, and an API request after that with the given
  reply.
\<close>

definition expired_remote :: "reply \<Rightarrow> reply \<Rightarrow> remote" where
  "expired_remote token_reply retry_reply h req =
     (if \<not> carries_bearer req then token_reply
      else if h = [] then Response 401 EmptyText
      else retry_reply)"

definition new_token :: reply where
  "new_token = Response 200 (Json (Obj [(''access_token'', Str ''tok2''), (''issued_at'', Str ''7'')]))"

text \<open>
  A remote on which the Contact query fails and the Lead query succeeds: the Lead query
  for \<open>x@y.com\<close> is answered with one lead, every other request with a 500.
\<close>

definition a_lead :: jsval where
  "a_lead = Obj [(''Id'', Str ''00Q1''), (''Name'', Str ''X Y''), (''Email'', Str ''x@y.com'')]"

definition lead_query_url :: string where
  "lead_query_url =
     ''https://org.example/services/data/v58.0/query/?q=''
       @ encodeURIComponent (leadQuery (quoteList [Str ''x@y.com'']))"

definition leads_only :: remote where
  "leads_only h req =
     (if req_url req = lead_query_url then Response 200 (Json (Obj [(''records'', Arr [a_lead])]))
      else Response 500 (Json (Obj [])))"

text \<open>A remote that answers every request with the same one record, which has no account.\<close>

definition a_contact :: jsval where
  "a_contact = Obj [(''Id'', Str ''0031''), (''Name'', Str ''X Y''), (''Email'', Str ''x@y.com'')]"

definition one_record :: remote where
  "one_record h req = Response 200 (Json (Obj [(''records'', Arr [a_contact])]))"

text \<open>
  A remote that answers the first \<open>n\<close> requests it gets with the same one record, a
  contact linked to an account, and every later request with a 500.
\<close>

definition a_linked_contact :: jsval where
  "a_linked_contact =
     Obj [(''Id'', Str ''0031''), (''Account'', Obj [(''Id'', Str ''001A''), (''Name'', Str ''Acme'')])]"

definition answers_first :: "nat \<Rightarrow> remote" where
  "answers_first n h req =
     (if length h < n then Response 200 (Json (Obj [(''records'', Arr [a_linked_contact])]))
      else Response 500 (Json (Obj [])))"

section \<open>What a call adds to the log\<close>

lemma storeRefreshed_sent:
  "sent (snd (storeRefreshed session b s)) = sent s"
  by (simp add: storeRefreshed_def Let_def split: sum.splits)

lemma storeRefreshed_isl:
  "isl (fst (storeRefreshed session b s)) \<Longrightarrow>
   salesforceSession (snd (storeRefreshed session b s)) = salesforceSession s"
  by (simp add: storeRefreshed_def Let_def split: sum.splits)

lemma refreshToken_cases:
  assumes run: "refreshToken remote c s = (r, s')"
  obtains
    (token_unsent) "isl r" "sent s' = sent s" "salesforceSession s' = salesforceSession s"
  | (token_unanswered) t where "\<not> carries_bearer t" "r = Inl FetchFailed"
      "sent s' = sent s @ [(t, NoResponse)]" "salesforceSession s' = salesforceSession s"
  | (token_rejected) t st tb where "\<not> carries_bearer t" "\<not> ok st" "r = Inl RefreshExpired"
      "sent s' = sent s @ [(t, Response st tb)]" "salesforceSession s' = None"
  | (token_answered) t st tb where "\<not> carries_bearer t" "ok st"
      "sent s' = sent s @ [(t, Response st tb)]"
      "isl r \<longrightarrow> salesforceSession s' = salesforceSession s"
proof (cases "JSON_parse (salesforceSession s)")
  case (Inl e)
  have "refreshToken remote c s = (Inl e, s)" by (simp add: refreshToken_def Inl)
  with run have "isl r" "s' = s" by auto
  then show ?thesis by (intro token_unsent) simp_all
next
  case session: (Inr session)
  show ?thesis
  proof (cases "js_get session ''refresh_token''")
    case (Inl e)
    have "isl (fst (refreshToken remote c s)) \<and> snd (refreshToken remote c s) = s"
      by (simp add: refreshToken_def session Inl)
    with run have "isl r" "s' = s" by auto
    then show ?thesis by (intro token_unsent) simp_all
  next
    case rt: (Inr refresh_token)
    show ?thesis
    proof (cases "truthy session \<and> truthy refresh_token")
      case False
      then have "isl (fst (refreshToken remote c s)) \<and> snd (refreshToken remote c s) = s"
        by (auto simp: refreshToken_def session rt)
      with run have "isl r" "s' = s" by auto
      then show ?thesis by (intro token_unsent) simp_all
    next
      case True
      define t where "t = tokenRequest s refresh_token c"
      define s1 where "s1 = s\<lparr>sent := sent s @ [(t, remote (sent s) t)]\<rparr>"
      have nb: "\<not> carries_bearer t"
        by (simp add: carries_bearer_def t_def tokenRequest_def)
      have eq: "refreshToken remote c s =
        (case remote (sent s) t of
           NoResponse \<Rightarrow> (Inl FetchFailed, s1)
         | Response status btext \<Rightarrow>
             if \<not> ok status then (Inl RefreshExpired, s1\<lparr>salesforceSession := None\<rparr>)
             else storeRefreshed session btext s1)"
        using True
        by (simp add: refreshToken_def session rt fetch_def t_def [symmetric] s1_def split: reply.splits)
      show ?thesis
      proof (cases "remote (sent s) t")
        case NoResponse
        with eq run have "r = Inl FetchFailed" "s' = s1" by simp_all
        with nb show ?thesis by (intro token_unanswered [of t]) (simp_all add: s1_def NoResponse)
      next
        case (Response st tb)
        show ?thesis
        proof (cases "ok st")
          case False
          with eq run Response have "r = Inl RefreshExpired" "s' = s1\<lparr>salesforceSession := None\<rparr>"
            by simp_all
          with nb False show ?thesis
            by (intro token_rejected [of t st tb]) (simp_all add: s1_def Response)
        next
          case True
          with eq run Response have sr: "storeRefreshed session tb s1 = (r, s')" by simp
          have "sent s' = sent s1"
            using storeRefreshed_sent [of session tb s1] sr by simp
          moreover have "isl r \<longrightarrow> salesforceSession s' = salesforceSession s1"
            using storeRefreshed_isl [of session tb s1] sr by simp
          ultimately show ?thesis using nb True
            by (intro token_answered [of t st tb]) (simp_all add: s1_def Response)
        qed
      qed
    qed
  qed
qed

lemma set_header_keys: "map fst (set_header k v hs) = map fst hs"
  by (induction hs) (auto simp: set_header_def)

lemma set_header_bearer:
  assumes "carries_bearer a"
  shows "carries_bearer (a\<lparr>req_headers := set_header ''Authorization'' v (req_headers a)\<rparr>)"
proof -
  have "fst ` set (set_header ''Authorization'' v (req_headers a)) = fst ` set (req_headers a)"
    using set_header_keys [of "''Authorization''" v "req_headers a"]
    by (metis set_map)
  with assms show ?thesis by (simp add: carries_bearer_def map_of_eq_None_iff)
qed

lemma refreshAndRetry_cases:
  assumes run: "refreshAndRetry remote a s = (r, s')"
      and api: "has_api_options m b a"
  obtains
    (unsent) "isl r" "sent s' = sent s" "salesforceSession s' = salesforceSession s"
  | (unanswered) t where "\<not> carries_bearer t" "isl r"
      "sent s' = sent s @ [(t, NoResponse)]" "salesforceSession s' = salesforceSession s"
  | (rejected) t st tb where "\<not> carries_bearer t" "\<not> ok st" "isl r"
      "sent s' = sent s @ [(t, Response st tb)]" "salesforceSession s' = None"
  | (unusable) t st tb where "\<not> carries_bearer t" "ok st" "isl r"
      "sent s' = sent s @ [(t, Response st tb)]" "salesforceSession s' = salesforceSession s"
  | (retried) t st tb a' rep where "\<not> carries_bearer t" "ok st" "has_api_options m b a'"
      "sent s' = sent s @ [(t, Response st tb), (a', rep)]" "r = retry_result rep"
proof -
  obtain r1 s1 where rt: "refreshToken remote Undefined s = (r1, s1)"
    by (cases "refreshToken remote Undefined s")
  show ?thesis
  proof (cases r1)
    case (Inl e)
    have "refreshAndRetry remote a s = (Inl e, s1)"
      by (simp add: refreshAndRetry_def rt Inl)
    with run have rs: "r = r1" "s' = s1" using Inl by simp_all
    from rt show ?thesis
    proof (cases rule: refreshToken_cases)
      case token_unsent
      with rs show ?thesis by (intro unsent) simp_all
    next
      case (token_unanswered t)
      with rs show ?thesis by (intro unanswered [of t]) simp_all
    next
      case (token_rejected t st tb)
      with rs show ?thesis by (intro rejected [of t st tb]) simp_all
    next
      case (token_answered t st tb)
      with rs Inl show ?thesis by (intro unusable [of t st tb]) simp_all
    qed
  next
    case (Inr tokenData)
    define a' where "a' = a\<lparr>req_headers :=
                 set_header ''Authorization'' (''Bearer '' @ js_toString (accessToken s1))
                   (req_headers a)\<rparr>"
    have api': "has_api_options m b a'"
      using api set_header_bearer [of a] by (simp add: has_api_options_def a'_def)
    have eq: "refreshAndRetry remote a s =
                (retry_result (remote (sent s1) a'), s1\<lparr>sent := sent s1 @ [(a', remote (sent s1) a')]\<rparr>)"
      by (simp add: refreshAndRetry_def rt Inr Let_def fetch_def a'_def retry_result_def
               split: reply.splits sum.splits)
    with run have rs: "r = retry_result (remote (sent s1) a')"
      "sent s' = sent s1 @ [(a', remote (sent s1) a')]" by auto
    from rt show ?thesis
    proof (cases rule: refreshToken_cases)
      case (token_answered t st tb)
      with rs api' show ?thesis by (intro retried [of t st a' tb]) simp_all
    qed (use Inr in simp_all)
  qed
qed


lemma resolveCredentials_keeps:
  "sent (snd (resolveCredentials s)) = sent s \<and>
   salesforceSession (snd (resolveCredentials s)) = salesforceSession s"
  by (simp add: resolveCredentials_def split: sum.splits)


lemma apiCall_cases:
  assumes run: "apiCall remote endpoint m d s = (r, s')"
  obtains
    (unauthenticated) "isl r" "sent s' = sent s" "salesforceSession s' = salesforceSession s"
  | (direct) a rep where "has_api_options m (req_body (apiRequest s endpoint m d)) a" "\<forall>b. rep \<noteq> Response 401 b"
      "sent s' = sent s @ [(a, rep)]" "r = first_result rep"
      "salesforceSession s' = salesforceSession s"
  | (expired) a b0 r2 s1 where "has_api_options m (req_body (apiRequest s endpoint m d)) a"
      "sent s1 = sent s @ [(a, Response 401 b0)]" "salesforceSession s1 = salesforceSession s"
      "refreshAndRetry remote a s1 = (r2, s')"
      "r = (case r2 of Inl e \<Rightarrow> Inl AuthExpired | Inr v \<Rightarrow> Inr v)"
proof -
  obtain r0 s0 where rc: "resolveCredentials s = (r0, s0)"
    by (cases "resolveCredentials s")
  have keeps: "sent s0 = sent s" "salesforceSession s0 = salesforceSession s"
    using resolveCredentials_keeps [of s] rc by simp_all
  show ?thesis
  proof (cases r0)
    case (Inl e)
    have "apiCall remote endpoint m d s = (Inl e, s0)"
      by (simp add: apiCall_def rc Inl)
    with run have "isl r" "s' = s0" by auto
    with keeps show ?thesis by (intro unauthenticated) simp_all
  next
    case (Inr u)
    define a where "a = apiRequest s0 endpoint m d"
    define s1 where "s1 = s0\<lparr>sent := sent s0 @ [(a, remote (sent s0) a)]\<rparr>"
    have opts: "has_api_options m (req_body (apiRequest s endpoint m d)) a"
      by (simp add: has_api_options_def carries_bearer_def a_def apiRequest_def)
    have eq: "apiCall remote endpoint m d s =
      (case remote (sent s0) a of
         NoResponse \<Rightarrow> (Inl FetchFailed, s1)
       | Response st b \<Rightarrow>
           if st = 401 then
             (case refreshAndRetry remote a s1 of
                (Inl refreshError, s2) \<Rightarrow> (Inl AuthExpired, s2)
              | (Inr v, s2) \<Rightarrow> (Inr v, s2))
           else (first_result (Response st b), s1))"
    proof (cases "remote (sent s0) a")
      case NoResponse
      then have "fetch remote a s0 = (Inl FetchFailed, s1)"
        by (simp add: fetch_def s1_def)
      then show ?thesis
        by (simp add: apiCall_def rc Inr a_def [symmetric] NoResponse)
    next
      case (Response st b)
      then have "fetch remote a s0 = (Inr (st, b), s1)"
        by (simp add: fetch_def s1_def)
      then show ?thesis
        by (simp add: apiCall_def rc Inr a_def [symmetric] Response first_result_def split: sum.splits)
    qed
    show ?thesis
    proof (cases "\<exists>b. remote (sent s0) a = Response 401 b")
      case False
      with eq run have "r = first_result (remote (sent s0) a)" "s' = s1"
        by (auto simp: first_result_def split: reply.splits if_splits)
      with False opts keeps show ?thesis
        by (intro direct [of a "remote (sent s0) a"]) (simp_all add: s1_def)
    next
      case True
      then obtain b0 where b0: "remote (sent s0) a = Response 401 b0" ..
      obtain r2 s2 where rr: "refreshAndRetry remote a s1 = (r2, s2)"
        by (cases "refreshAndRetry remote a s1")
      from eq run b0 rr have "r = (case r2 of Inl e \<Rightarrow> Inl AuthExpired | Inr v \<Rightarrow> Inr v)" "s' = s2"
        by (auto split: sum.splits)
      with opts keeps b0 rr show ?thesis
        by (intro expired [of a s1 b0 r2]) (simp_all add: s1_def)
    qed
  qed
qed

lemma new_exchanges_append: "sent s' = sent s @ new \<Longrightarrow> new_exchanges s s' = new"
  by (simp add: new_exchanges_def)

section \<open>The empty address list (C6)\<close>

text \<open>
  C6. For \<open>null\<close>, \<open>undefined\<close> or an empty array of addresses, \<open>findRelatedRecords\<close>
  returns the four groups empty and leaves the world as it was: nothing is added to the
  log of exchanges, so no remote call is dispatched.
\<close>

theorem findRelatedRecords_no_addresses:
  assumes "emailAddresses = Null \<or> emailAddresses = Undefined \<or> emailAddresses = Arr []"
  shows "findRelatedRecords remote emailAddresses s = (Inr emptyResults, s)
       \<and> emptyResults = \<lparr>contacts = Arr [], leads = Arr [], accounts = Arr [], opportunities = Arr []\<rparr>
       \<and> new_exchanges s (snd (findRelatedRecords remote emailAddresses s)) = []"
  using assms by (auto simp: findRelatedRecords_def emptyResults_def new_exchanges_def)

theorem findRelatedRecords_no_addresses_witness:
  "findRelatedRecords silent (Arr []) (signed_in None) = (Inr emptyResults, signed_in None)
   \<and> sent (snd (findRelatedRecords silent (Arr []) (signed_in None))) = []"
  using findRelatedRecords_no_addresses [of "Arr []" silent "signed_in None"]
  by (simp add: signed_in_def)

section \<open>The expiry check (C2)\<close>

lemma isTokenExpired_absent:
  assumes "js_get session ''issued_at'' = Inr issued_at" and "\<not> truthy issued_at"
  shows "isTokenExpired now session = Inr True"
  using assms by (simp add: isTokenExpired_def)

lemma isTokenExpired_parsed:
  assumes "js_get session ''issued_at'' = Inr issued_at" and "truthy issued_at"
      and "parseInt issued_at = Some t"
  shows "isTokenExpired now session = Inr (now - t > expirationTime)"
  using assms by (simp add: isTokenExpired_def)

text \<open>
  C2 at a session whose \<open>issued_at\<close> is present and no number: \<open>parseInt\<close> gives \<open>NaN\<close>,
  the difference is \<open>NaN\<close>, and the comparison with the window is false, so the session
  counts as not expired, at every time \<open>now\<close>.
\<close>

theorem isTokenExpired_unparseable:
  "parseInt (Str ''abc'') = None
   \<and> isTokenExpired now (Obj [(''access_token'', Str ''tok''), (''issued_at'', Str ''abc'')]) = Inr False"
  by (simp add: isTokenExpired_def parseInt_def is_space_def digit_of_def)

section \<open>Reading the persisted session (C8)\<close>

lemma getSessionInfo_malformed:
  "getSessionInfo (s\<lparr>salesforceSession := Some Malformed\<rparr>) = Null"
  by (simp add: getSessionInfo_def)

lemma isAuthenticated_malformed:
  "\<not> isAuthenticated (s\<lparr>salesforceSession := Some Malformed\<rparr>)"
  by (simp add: isAuthenticated_def)

text \<open>
  C8 at a store holding text that is not JSON, read by a service with no cached token:
  \<open>apiCall\<close> parses the item outside any \<open>try\<close>, the \<open>SyntaxError\<close> reaches the caller
  and no request is sent, where \<open>getSessionInfo\<close> on the same store returns \<open>null\<close>.
\<close>

theorem apiCall_malformed_store:
  "apiCall silent ''sobjects/User/me'' ''GET'' Null (just_constructed (Some Malformed))
     = (Inl SyntaxError, just_constructed (Some Malformed))
   \<and> getSessionInfo (just_constructed (Some Malformed)) = Null"
  by (simp add: apiCall_def resolveCredentials_def just_constructed_def getSessionInfo_def)

section \<open>The authenticated-session check (C9)\<close>

text \<open>
  C9 as stated fails: a session issued at time 0 is not usable two hours and one
  millisecond later, and \<open>isAuthenticated\<close> still returns true for it.
\<close>

theorem isAuthenticated_expired_counterexample:
  "isAuthenticated (just_constructed (Some (Json stored_session)))
   \<and> \<not> spec_usable 7200001 stored_session"
  by (simp add: isAuthenticated_def just_constructed_def stored_session_def spec_usable_def
        isTokenExpired_def parseInt_def is_space_def digit_of_def expirationTime_def)

text \<open>
  C9, amended. \<open>isAuthenticated\<close> returns true if and only if the stored item parses to a
  value whose \<open>access_token\<close> and \<open>instance_url\<close> are both present; \<open>issued_at\<close> is not
  looked at. So every usable session is reported as authenticated, at every time.
\<close>

theorem isAuthenticated_iff_present:
  "(isAuthenticated s \<longleftrightarrow>
      (\<exists>session a i. salesforceSession s = Some (Json session)
          \<and> js_get session ''access_token'' = Inr a \<and> truthy a
          \<and> js_get session ''instance_url'' = Inr i \<and> truthy i))
   \<and> (\<forall>session now. salesforceSession s = Some (Json session) \<and> spec_usable now session
          \<longrightarrow> isAuthenticated s)"
proof -
  have "isAuthenticated s \<longleftrightarrow>
      (\<exists>session a i. salesforceSession s = Some (Json session)
          \<and> js_get session ''access_token'' = Inr a \<and> truthy a
          \<and> js_get session ''instance_url'' = Inr i \<and> truthy i)"
  proof (cases "salesforceSession s")
    case None
    then show ?thesis by (simp add: isAuthenticated_def)
  next
    case (Some t)
    then show ?thesis
      by (cases t) (auto simp: isAuthenticated_def split: sum.splits)
  qed
  then show ?thesis
    by (auto simp: spec_usable_def split: sum.splits)
qed

theorem isAuthenticated_iff_present_witness:
  "isAuthenticated (just_constructed (Some (Json stored_session)))
   \<and> \<not> isAuthenticated (just_constructed (Some (Json (Obj [(''access_token'', Str ''tok'')]))))"
  using isAuthenticated_iff_present [of "just_constructed (Some (Json stored_session))"]
        isAuthenticated_iff_present [of "just_constructed (Some (Json (Obj [(''access_token'', Str ''tok'')])))"]
  by (simp add: just_constructed_def stored_session_def)

section \<open>At most two attempts (C4)\<close>

text \<open>
  C4. Whatever the remote answers, one call of \<open>apiCall\<close> adds at most three exchanges to
  the log, of which at most two are API attempts (the third is the token request of the
  refresh); and when there are two API attempts, the first exchange of the call is the
  original request answered 401. So a retry only follows a 401, and there is never a
  second retry.
\<close>

theorem apiCall_at_most_two_attempts:
  assumes run: "apiCall remote endpoint method data s = (r, s')"
  shows "sent s' = sent s @ new_exchanges s s'
       \<and> length (new_exchanges s s') \<le> 3
       \<and> length (filter (\<lambda>x. carries_bearer (fst x)) (new_exchanges s s')) \<le> 2
       \<and> (length (filter (\<lambda>x. carries_bearer (fst x)) (new_exchanges s s')) = 2 \<longrightarrow>
             (\<exists>req b rest. new_exchanges s s' = (req, Response 401 b) # rest))"
  using run
proof (cases rule: apiCall_cases)
  case unauthenticated
  then show ?thesis by (simp add: new_exchanges_def)
next
  case (direct a rep)
  then show ?thesis by (simp add: new_exchanges_def)
next
  case (expired a b0 r2 s1)
  from expired(4,1) show ?thesis
  proof (cases rule: refreshAndRetry_cases)
    case unsent
    with expired show ?thesis by (simp add: new_exchanges_def)
  next
    case (unanswered t)
    with expired show ?thesis by (simp add: new_exchanges_def)
  next
    case (rejected t st tb)
    with expired show ?thesis by (simp add: new_exchanges_def)
  next
    case (unusable t st tb)
    with expired show ?thesis by (simp add: new_exchanges_def)
  next
    case (retried t st tb a' rep)
    with expired show ?thesis by (simp add: new_exchanges_def)
  qed
qed

theorem apiCall_at_most_two_attempts_witness:
  "length (filter (\<lambda>x. carries_bearer (fst x))
      (new_exchanges (signed_in (Some (Json stored_session)))
         (snd (apiCall (expired_remote new_token (Response 200 (Json (Obj []))))
            ''sobjects/User/me'' ''GET'' Null (signed_in (Some (Json stored_session))))))) = 2
   \<and> (\<exists>req b rest.
         new_exchanges (signed_in (Some (Json stored_session)))
           (snd (apiCall (expired_remote new_token (Response 200 (Json (Obj []))))
              ''sobjects/User/me'' ''GET'' Null (signed_in (Some (Json stored_session)))))
         = (req, Response 401 b) # rest)"
proof -
  let ?w = "signed_in (Some (Json stored_session))"
  let ?run = "apiCall (expired_remote new_token (Response 200 (Json (Obj []))))
       ''sobjects/User/me'' ''GET'' Null ?w"
  have run: "?run = (fst ?run, snd ?run)" by simp
  have two: "length (filter (\<lambda>x. carries_bearer (fst x)) (new_exchanges ?w (snd ?run))) = 2"
    by (simp add: apiCall_def resolveCredentials_def signed_in_def apiRequest_def fetch_def
          expired_remote_def carries_bearer_def refreshAndRetry_def refreshToken_def
          tokenRequest_def stored_session_def new_token_def ok_def storeRefreshed_def
          set_header_def new_exchanges_def)
  with apiCall_at_most_two_attempts [OF run] show ?thesis by simp
qed

section \<open>A 401 followed by a failure (C3)\<close>

text \<open>
  C3 as stated fails: with the session of \<open>simulateAuthentication\<close> in the store, which has
  no refresh token, the original request is answered 401, the refresh fails before it
  sends anything, the call fails with \<open>AuthExpired\<close>, and the session is still in the store.
\<close>

theorem apiCall_refresh_failure_counterexample:
  "fst (apiCall (expired_remote NoResponse NoResponse) ''sobjects/User/me'' ''GET'' Null
          (signed_in (Some (Json mock_session)))) = Inl AuthExpired
   \<and> map snd (sent (snd (apiCall (expired_remote NoResponse NoResponse) ''sobjects/User/me'' ''GET'' Null
          (signed_in (Some (Json mock_session)))))) = [Response 401 EmptyText]
   \<and> fst (refreshToken (expired_remote NoResponse NoResponse) Undefined
          (signed_in (Some (Json mock_session)))) = Inl NoRefreshToken
   \<and> salesforceSession (snd (apiCall (expired_remote NoResponse NoResponse) ''sobjects/User/me'' ''GET'' Null
          (signed_in (Some (Json mock_session))))) = Some (Json mock_session)"
  by (simp add: apiCall_def resolveCredentials_def signed_in_def apiRequest_def fetch_def
          expired_remote_def carries_bearer_def refreshAndRetry_def refreshToken_def
          tokenRequest_def stored_session_def mock_session_def new_token_def ok_def
          storeRefreshed_def set_header_def)

text \<open>
  C3, amended. Take a call whose original request is answered 401, and let \<open>rest\<close> be the
  exchanges that follow it. If the refresh fails (no retry is sent: \<open>rest\<close> has at most the
  token request), the call fails with \<open>AuthExpired\<close>. The persisted session is cleared when
  the token request is answered with a status that is not a success; when the refresh
  fails before it sends the token request, the store is as it was. If the refresh succeeds
  and the retry gets no response or a status that is not a success, the call fails with
  \<open>AuthExpired\<close>.
\<close>

theorem apiCall_refresh_failure:
  assumes run: "apiCall remote endpoint method data s = (r, s')"
      and first: "new_exchanges s s' = (req0, Response 401 b0) # rest"
  shows "(length rest \<le> 1 \<longrightarrow> r = Inl AuthExpired)
       \<and> (\<forall>t st tb. rest = [(t, Response st tb)] \<and> \<not> ok st \<longrightarrow> salesforceSession s' = None)
       \<and> (rest = [] \<longrightarrow> salesforceSession s' = salesforceSession s)
       \<and> (\<forall>x req. rest = [x, (req, NoResponse)] \<longrightarrow> r = Inl AuthExpired)
       \<and> (\<forall>x req st b. rest = [x, (req, Response st b)] \<and> \<not> ok st \<longrightarrow> r = Inl AuthExpired)"
  using run
proof (cases rule: apiCall_cases)
  case unauthenticated
  with first show ?thesis by (simp add: new_exchanges_def)
next
  case (direct a' rep)
  with first show ?thesis by (simp add: new_exchanges_def)
next
  case (expired a' b0 r2 s1)
  from expired(4,1) show ?thesis
  proof (cases rule: refreshAndRetry_cases)
    case unsent
    with expired first show ?thesis by (auto simp: new_exchanges_def split: sum.splits)
  next
    case (unanswered t)
    with expired first show ?thesis by (auto simp: new_exchanges_def split: sum.splits)
  next
    case (rejected t st tb)
    with expired first show ?thesis by (auto simp: new_exchanges_def split: sum.splits)
  next
    case (unusable t st tb)
    with expired first show ?thesis by (auto simp: new_exchanges_def split: sum.splits)
  next
    case (retried t st tb a' rep)
    with expired first show ?thesis by (auto simp: new_exchanges_def retry_result_def split: sum.splits)
  qed
qed

theorem apiCall_refresh_failure_witness:
  "fst (apiCall (expired_remote (Response 400 EmptyText) NoResponse) ''sobjects/User/me'' ''GET'' Null
          (signed_in (Some (Json stored_session)))) = Inl AuthExpired
   \<and> salesforceSession (snd (apiCall (expired_remote (Response 400 EmptyText) NoResponse)
          ''sobjects/User/me'' ''GET'' Null (signed_in (Some (Json stored_session))))) = None"
proof -
  let ?w = "signed_in (Some (Json stored_session))"
  let ?run = "apiCall (expired_remote (Response 400 EmptyText) NoResponse)
       ''sobjects/User/me'' ''GET'' Null ?w"
  have run: "?run = (fst ?run, snd ?run)" by simp
  have first: "new_exchanges ?w (snd ?run) =
      (fst (hd (sent (snd ?run))), Response 401 EmptyText)
      # [(fst (sent (snd ?run) ! 1), Response 400 EmptyText)]"
    by (simp add: apiCall_def resolveCredentials_def signed_in_def apiRequest_def fetch_def
          expired_remote_def carries_bearer_def refreshAndRetry_def refreshToken_def
          tokenRequest_def stored_session_def mock_session_def new_token_def ok_def
          storeRefreshed_def set_header_def new_exchanges_def)
  have "\<not> ok 400" by (simp add: ok_def)
  with apiCall_refresh_failure [OF run first] show ?thesis by simp
qed

section \<open>A 204 answer (C5)\<close>

text \<open>
  On the original attempt a 204 gives the empty object, whatever the body: the body is
  not parsed.
\<close>

lemma apiCall_204_direct:
  assumes run: "apiCall remote endpoint method data s = (r, s')"
      and new: "new_exchanges s s' = [(a, Response 204 b)]"
  shows "r = Inr (Obj [])"
  using run
proof (cases rule: apiCall_cases)
  case unauthenticated
  with new show ?thesis by (simp add: new_exchanges_def)
next
  case (direct a' rep)
  with new show ?thesis by (simp add: new_exchanges_def first_result_def ok_def)
next
  case (expired a' b0 r2 s1)
  from expired(4,1) show ?thesis
  proof (cases rule: refreshAndRetry_cases)
    case unsent
    with expired new show ?thesis by (simp add: new_exchanges_def)
  next
    case (unanswered t)
    with expired new show ?thesis by (simp add: new_exchanges_def)
  next
    case (rejected t st tb)
    with expired new show ?thesis by (simp add: new_exchanges_def)
  next
    case (unusable t st tb)
    with expired new show ?thesis by (simp add: new_exchanges_def)
  next
    case (retried t st tb a' rep)
    with expired new show ?thesis by (simp add: new_exchanges_def)
  qed
qed

text \<open>
  C5 on the retry: a \<open>DELETE\<close> whose original attempt is answered 401, whose refresh
  succeeds and whose retry is answered 204 with no body. The \<open>try\<close> block has no case for
  204: it parses the empty body, the \<open>SyntaxError\<close> is caught, and the call fails with
  \<open>AuthExpired\<close> although the record was deleted.
\<close>

theorem apiCall_204_on_retry:
  "fst (apiCall (expired_remote new_token (Response 204 EmptyText))
          ''sobjects/Contact/003'' ''DELETE'' Null (signed_in (Some (Json stored_session))))
     = Inl AuthExpired
   \<and> map snd (sent (snd (apiCall (expired_remote new_token (Response 204 EmptyText))
          ''sobjects/Contact/003'' ''DELETE'' Null (signed_in (Some (Json stored_session))))))
     = [Response 401 EmptyText, new_token, Response 204 EmptyText]"
  by (simp add: apiCall_def resolveCredentials_def signed_in_def apiRequest_def fetch_def
          expired_remote_def carries_bearer_def refreshAndRetry_def refreshToken_def
          tokenRequest_def stored_session_def mock_session_def new_token_def ok_def
          storeRefreshed_def set_header_def)

section \<open>The payloads of createContact and createLead (C7, C10)\<close>

lemma js_get_defined:
  assumes "d \<noteq> Undefined" and "d \<noteq> Null"
  shows "js_get d k = Inr (read_or_undefined d k)"
  using assms by (cases d) (simp_all add: read_or_undefined_def)

lemma js_get_undefined: "d = Undefined \<or> d = Null \<Longrightarrow> js_get d k = Inl TypeError"
  by auto

lemma remove_step:
  assumes "distinct (map fst ob)"
  shows "(if \<not> truthy (case map_of ob k of None \<Rightarrow> Undefined | Some v \<Rightarrow> v)
          then js_delete ob k else ob)
         = filter (\<lambda>kv. fst kv = k \<longrightarrow> truthy (snd kv)) ob"
proof (cases "map_of ob k")
  case None
  then have "\<forall>kv \<in> set ob. fst kv \<noteq> k"
    by (auto simp: map_of_eq_None_iff)
  then have "filter (\<lambda>kv. fst kv \<noteq> k) ob = ob" "filter (\<lambda>kv. fst kv = k \<longrightarrow> truthy (snd kv)) ob = ob"
    by (simp_all add: filter_id_conv)
  with None show ?thesis by (simp add: js_delete_def)
next
  case (Some v)
  with assms have "\<forall>kv \<in> set ob. fst kv = k \<longrightarrow> snd kv = v"
    by (metis map_of_eq_Some_iff option.inject prod.collapse)
  then have "filter (\<lambda>kv. fst kv = k \<longrightarrow> truthy (snd kv)) ob
           = (if truthy v then ob else filter (\<lambda>kv. fst kv \<noteq> k) ob)"
    by (auto simp: filter_id_conv intro!: filter_cong)
  with Some show ?thesis by (simp add: js_delete_def)
qed

lemma remove_fold:
  assumes "distinct (map fst ob)"
  shows "foldl (\<lambda>ob key. if \<not> truthy (case map_of ob key of None \<Rightarrow> Undefined | Some v \<Rightarrow> v)
                          then js_delete ob key else ob) ob ks
         = filter (\<lambda>kv. fst kv \<in> set ks \<longrightarrow> truthy (snd kv)) ob"
  using assms
proof (induction ks arbitrary: ob)
  case Nil
  then show ?case by simp
next
  case (Cons k ks)
  have d: "distinct (map fst (filter (\<lambda>kv. fst kv = k \<longrightarrow> truthy (snd kv)) ob))"
    using Cons.prems by (rule distinct_map_filter)
  show ?case
    using Cons.IH [OF d] remove_step [OF Cons.prems, of k]
    by (auto intro!: filter_cong)
qed

lemma removeEmptyFields_filter:
  assumes "distinct (map fst obj)"
  shows "removeEmptyFields obj = filter (\<lambda>kv. truthy (snd kv)) obj"
  unfolding removeEmptyFields_def remove_fold [OF assms]
  by (auto intro!: filter_cong)

lemma map_of_filter_truthy:
  assumes "distinct (map fst xs)"
  shows "map_of (filter (\<lambda>kv. truthy (snd kv)) xs) k
         = (case map_of xs k of None \<Rightarrow> None | Some v \<Rightarrow> if truthy v then Some v else None)"
  using assms
  by (induction xs) (auto simp: map_of_eq_None_iff image_iff split: option.splits)


lemma apiCall_attempts:
  assumes run: "apiCall remote endpoint m d s = (r, s')"
      and x: "x \<in> set (new_exchanges s s')" "carries_bearer (fst x)"
  shows "has_api_options m (req_body (apiRequest s endpoint m d)) (fst x)"
  using run
proof (cases rule: apiCall_cases)
  case unauthenticated
  with x show ?thesis by (simp add: new_exchanges_def)
next
  case (direct a rep)
  with x show ?thesis by (auto simp: new_exchanges_def)
next
  case (expired a b0 r2 s1)
  from expired(4,1) show ?thesis
  proof (cases rule: refreshAndRetry_cases)
    case unsent
    with expired x show ?thesis by (auto simp: new_exchanges_def)
  next
    case (unanswered t)
    with expired x show ?thesis by (auto simp: new_exchanges_def)
  next
    case (rejected t st tb)
    with expired x show ?thesis by (auto simp: new_exchanges_def)
  next
    case (unusable t st tb)
    with expired x show ?thesis by (auto simp: new_exchanges_def)
  next
    case (retried t st tb a' rep)
    with expired x show ?thesis by (auto simp: new_exchanges_def)
  qed
qed

lemma createRecord_bodies:
  assumes run: "createRecord remote objectType (Obj rec) s = (r, s')"
      and x: "x \<in> set (new_exchanges s s')" "carries_bearer (fst x)"
  shows "req_method (fst x) = ''POST'' \<and> req_body (fst x) = Some (JsonBody (JSON_stringify (Obj rec)))"
  using apiCall_attempts [OF run [unfolded createRecord_def] x]
  by (simp add: has_api_options_def apiRequest_def)

lemma contactRecord_eq:
  assumes "contactData \<noteq> Undefined" and "contactData \<noteq> Null"
  shows "contactRecord contactData =
     Inr (filter (\<lambda>kv. truthy (snd kv))
        (map (\<lambda>f. (fst f, read_or_undefined contactData (snd f))) contactFields))"
  by (simp add: contactRecord_def js_get_defined [OF assms] contactFields_def removeEmptyFields_filter)

lemma contactRecord_undefined:
  assumes "contactData = Undefined \<or> contactData = Null"
  shows "contactRecord contactData = Inl TypeError"
  using assms by (auto simp: contactRecord_def)



lemma apiCall_signed_in:
  assumes tok: "truthy (accessToken s)"
  shows "\<exists>rep rest. new_exchanges s (snd (apiCall remote endpoint m d s))
           = (apiRequest s endpoint m d, rep) # rest"
proof -
  define a where "a = apiRequest s endpoint m d"
  define s1 where "s1 = s\<lparr>sent := sent s @ [(a, remote (sent s) a)]\<rparr>"
  have rc: "resolveCredentials s = (Inr (), s)"
    using tok by (simp add: resolveCredentials_def)
  have opts: "has_api_options m (req_body a) a"
    by (simp add: has_api_options_def carries_bearer_def a_def apiRequest_def)
  show ?thesis
  proof (cases "remote (sent s) a")
    case NoResponse
    then have "fetch remote a s = (Inl FetchFailed, s1)"
      by (simp add: fetch_def s1_def)
    then have "snd (apiCall remote endpoint m d s) = s1"
      by (simp add: apiCall_def rc a_def [symmetric])
    then show ?thesis
      by (simp add: new_exchanges_def s1_def a_def)
  next
    case (Response st b)
    then have f: "fetch remote a s = (Inr (st, b), s1)"
      by (simp add: fetch_def s1_def)
    show ?thesis
    proof (cases "st = 401")
      case False
      with f have "snd (apiCall remote endpoint m d s) = s1"
        by (simp add: apiCall_def rc a_def [symmetric] split: sum.splits)
      then show ?thesis
        by (simp add: new_exchanges_def s1_def a_def)
    next
      case True
      obtain r2 s2 where rr: "refreshAndRetry remote a s1 = (r2, s2)"
        by (cases "refreshAndRetry remote a s1")
      have s2: "snd (apiCall remote endpoint m d s) = s2"
        using f True rr by (simp add: apiCall_def rc a_def [symmetric] split: sum.splits)
      have "\<exists>ext. sent s2 = sent s1 @ ext"
        using rr opts by (cases rule: refreshAndRetry_cases) simp_all
      then obtain ext where "sent s2 = sent s1 @ ext" ..
      then show ?thesis
        unfolding s2 by (simp add: new_exchanges_def s1_def a_def)
    qed
  qed
qed

lemma createRecord_first_request:
  assumes tok: "truthy (accessToken s)"
  shows "\<exists>x rest. new_exchanges s (snd (createRecord remote objectType (Obj rec) s)) = x # rest
           \<and> carries_bearer (fst x) \<and> req_method (fst x) = ''POST''
           \<and> req_body (fst x) = Some (JsonBody (JSON_stringify (Obj rec)))"
proof -
  obtain rep rest where
    "new_exchanges s (snd (createRecord remote objectType (Obj rec) s))
       = (apiRequest s (''sobjects/'' @ objectType @ ''/'') ''POST'' (Obj rec), rep) # rest"
    using apiCall_signed_in [OF tok] unfolding createRecord_def by blast
  then show ?thesis
    by (simp add: apiRequest_def carries_bearer_def)
qed

lemma contactRecord_fields:
  assumes rec: "contactRecord contactData = Inr contact"
  shows "(\<forall>remote_name input_name v.
            (remote_name, input_name) \<in> set contactFields \<and> js_get contactData input_name = Inr v \<longrightarrow>
              (v = Undefined \<or> v = Null \<or> v = Str [] \<longrightarrow> remote_name \<notin> fst ` set contact) \<and>
              (\<not> truthy v \<longrightarrow> remote_name \<notin> fst ` set contact) \<and>
              (truthy v \<longrightarrow> map_of contact remote_name = Some v))
       \<and> (\<forall>kv \<in> set contact. fst kv \<in> fst ` set contactFields \<and> truthy (snd kv)
              \<and> snd kv \<noteq> Undefined \<and> snd kv \<noteq> Null \<and> snd kv \<noteq> Str [])
       \<and> (\<forall>remote s r s'. createContact remote contactData s = (r, s') \<longrightarrow>
              (\<forall>x \<in> set (new_exchanges s s'). carries_bearer (fst x) \<longrightarrow>
                 req_body (fst x) = Some (JsonBody (JSON_stringify (Obj contact)))))
       \<and> contactRecord (Obj [(''firstName'', Str ''A''), (''lastName'', Str ''B''), (''email'', Str [])])
            = Inr [(''FirstName'', Str ''A''), (''LastName'', Str ''B'')]"
proof -
  have nn: "contactData \<noteq> Undefined" "contactData \<noteq> Null"
    using rec contactRecord_undefined [of contactData] by auto
  let ?lit = "map (\<lambda>f. (fst f, read_or_undefined contactData (snd f))) contactFields"
  have contact: "contact = filter (\<lambda>kv. truthy (snd kv)) ?lit"
    using rec contactRecord_eq [OF nn] by simp
  have dist: "distinct (map fst ?lit)"
    by (simp add: contactFields_def)
  have look: "map_of contact k =
      (case map_of ?lit k of None \<Rightarrow> None | Some v \<Rightarrow> if truthy v then Some v else None)" for k
    unfolding contact by (rule map_of_filter_truthy [OF dist])
  have lit: "map_of ?lit remote_name = Some v"
    if "(remote_name, input_name) \<in> set contactFields" "js_get contactData input_name = Inr v"
    for remote_name input_name v
    using that js_get_defined [OF nn, of input_name]
    by (auto simp: contactFields_def)
  have none: "(k \<notin> fst ` set contact) = (map_of contact k = None)" for k
    by (simp add: map_of_eq_None_iff)
  have fields: "(v = Undefined \<or> v = Null \<or> v = Str [] \<longrightarrow> remote_name \<notin> fst ` set contact) \<and>
              (\<not> truthy v \<longrightarrow> remote_name \<notin> fst ` set contact) \<and>
              (truthy v \<longrightarrow> map_of contact remote_name = Some v)"
    if "(remote_name, input_name) \<in> set contactFields" "js_get contactData input_name = Inr v"
    for remote_name input_name v
    unfolding none using look [of remote_name] lit [OF that] by auto
  have vals: "\<forall>kv \<in> set contact. fst kv \<in> fst ` set contactFields \<and> truthy (snd kv)
              \<and> snd kv \<noteq> Undefined \<and> snd kv \<noteq> Null \<and> snd kv \<noteq> Str []"
    unfolding contact by auto
  have wire: "req_body (fst x) = Some (JsonBody (JSON_stringify (Obj contact)))"
    if "createContact remote contactData s = (r, s')" "x \<in> set (new_exchanges s s')"
       "carries_bearer (fst x)" for remote s r s' x
    using that createRecord_bodies [of remote "''Contact''" contact s r s' x]
    by (simp add: createContact_def rec)
  have ex: "contactRecord (Obj [(''firstName'', Str ''A''), (''lastName'', Str ''B''), (''email'', Str [])])
            = Inr [(''FirstName'', Str ''A''), (''LastName'', Str ''B'')]"
    by (simp add: contactRecord_def removeEmptyFields_def js_delete_def)
  have c1: "\<forall>remote_name input_name v.
            (remote_name, input_name) \<in> set contactFields \<and> js_get contactData input_name = Inr v \<longrightarrow>
              (v = Undefined \<or> v = Null \<or> v = Str [] \<longrightarrow> remote_name \<notin> fst ` set contact) \<and>
              (\<not> truthy v \<longrightarrow> remote_name \<notin> fst ` set contact) \<and>
              (truthy v \<longrightarrow> map_of contact remote_name = Some v)"
    by (intro allI impI, elim conjE, rule fields)
  have c3: "\<forall>remote s r s'. createContact remote contactData s = (r, s') \<longrightarrow>
              (\<forall>x \<in> set (new_exchanges s s'). carries_bearer (fst x) \<longrightarrow>
                 req_body (fst x) = Some (JsonBody (JSON_stringify (Obj contact))))"
    by (intro allI impI ballI, rule wire)
  show ?thesis
    by (intro conjI) (fact c1, fact vals, fact c3, fact ex)
qed

text \<open>
  C7. For every argument that is neither \<open>null\<close> nor \<open>undefined\<close> (on those the first
  property read raises, lemma \<open>contactRecord_undefined\<close>), \<open>createContact\<close> builds a record,
  and the record is the seven input fields under their remote names without the falsy ones.
  Every input field that is absent (\<open>undefined\<close>), \<open>null\<close> or the empty string, and more
  generally every falsy one, has no key in the record, and every other input field is in
  the record under its remote name with its value; the record has no other keys and no
  empty value. Every API request the call sends has the JSON text of that record as its
  body, and a service that holds a token does send it: the first exchange of the call is
  a \<open>POST\<close> with the bearer credential and that body. In particular, for
  \<open>{firstName: "A", lastName: "B", email: ""}\<close> the record has \<open>FirstName\<close> and \<open>LastName\<close>
  and no \<open>Email\<close>.
\<close>

theorem createContact_payload:
  assumes "contactData \<noteq> Undefined" and "contactData \<noteq> Null"
  shows "(\<exists>contact. contactRecord contactData = Inr contact
       \<and> contact = filter (\<lambda>kv. truthy (snd kv))
            (map (\<lambda>f. (fst f, read_or_undefined contactData (snd f))) contactFields)
       \<and> (\<forall>remote_name input_name v.
            (remote_name, input_name) \<in> set contactFields \<and> js_get contactData input_name = Inr v \<longrightarrow>
              (v = Undefined \<or> v = Null \<or> v = Str [] \<longrightarrow> remote_name \<notin> fst ` set contact) \<and>
              (\<not> truthy v \<longrightarrow> remote_name \<notin> fst ` set contact) \<and>
              (truthy v \<longrightarrow> map_of contact remote_name = Some v))
       \<and> (\<forall>kv \<in> set contact. fst kv \<in> fst ` set contactFields \<and> truthy (snd kv)
              \<and> snd kv \<noteq> Undefined \<and> snd kv \<noteq> Null \<and> snd kv \<noteq> Str [])
       \<and> (\<forall>remote s r s'. createContact remote contactData s = (r, s') \<longrightarrow>
              (\<forall>x \<in> set (new_exchanges s s'). carries_bearer (fst x) \<longrightarrow>
                 req_body (fst x) = Some (JsonBody (JSON_stringify (Obj contact)))))
       \<and> (\<forall>remote s. truthy (accessToken s) \<longrightarrow>
              (\<exists>x rest. new_exchanges s (snd (createContact remote contactData s)) = x # rest
                 \<and> carries_bearer (fst x) \<and> req_method (fst x) = ''POST''
                 \<and> req_body (fst x) = Some (JsonBody (JSON_stringify (Obj contact))))))
   \<and> contactRecord (Obj [(''firstName'', Str ''A''), (''lastName'', Str ''B''), (''email'', Str [])])
        = Inr [(''FirstName'', Str ''A''), (''LastName'', Str ''B'')]"
proof -
  define contact where "contact = filter (\<lambda>kv. truthy (snd kv))
            (map (\<lambda>f. (fst f, read_or_undefined contactData (snd f))) contactFields)"
  have rec: "contactRecord contactData = Inr contact"
    unfolding contact_def by (rule contactRecord_eq [OF assms])
  note fields = contactRecord_fields [OF rec]
  have sends: "\<forall>remote s. truthy (accessToken s) \<longrightarrow>
              (\<exists>x rest. new_exchanges s (snd (createContact remote contactData s)) = x # rest
                 \<and> carries_bearer (fst x) \<and> req_method (fst x) = ''POST''
                 \<and> req_body (fst x) = Some (JsonBody (JSON_stringify (Obj contact))))"
  proof (intro allI impI)
    fix remote :: remote and s :: world
    assume tok: "truthy (accessToken s)"
    have "createContact remote contactData s = createRecord remote ''Contact'' (Obj contact) s"
      by (simp add: createContact_def rec)
    with createRecord_first_request [OF tok, of remote "''Contact''" contact]
    show "\<exists>x rest. new_exchanges s (snd (createContact remote contactData s)) = x # rest
                 \<and> carries_bearer (fst x) \<and> req_method (fst x) = ''POST''
                 \<and> req_body (fst x) = Some (JsonBody (JSON_stringify (Obj contact)))"
      by (simp only:)
  qed
  show ?thesis
    by (intro conjI exI [of _ contact])
       (fact rec, fact contact_def, fact fields [THEN conjunct1],
        fact fields [THEN conjunct2, THEN conjunct1],
        fact fields [THEN conjunct2, THEN conjunct2, THEN conjunct1], fact sends,
        fact fields [THEN conjunct2, THEN conjunct2, THEN conjunct2])
qed

theorem createContact_payload_witness:
  "contactRecord (Obj [(''firstName'', Str ''A''), (''lastName'', Str ''B''), (''email'', Str [])])
     = Inr [(''FirstName'', Str ''A''), (''LastName'', Str ''B'')]
   \<and> ''Email'' \<notin> fst ` set [(''FirstName'', Str ''A''), (''LastName'', Str ''B'')]
   \<and> map_of [(''FirstName'', Str ''A''), (''LastName'', Str ''B'')] ''FirstName'' = Some (Str ''A'')
   \<and> map (\<lambda>x. req_body (fst x))
        (sent (snd (createContact silent
           (Obj [(''firstName'', Str ''A''), (''lastName'', Str ''B''), (''email'', Str [])])
           (signed_in None))))
     = [Some (JsonBody (Json (Obj [(''FirstName'', Str ''A''), (''LastName'', Str ''B'')])))]"
proof -
  let ?d = "Obj [(''firstName'', Str ''A''), (''lastName'', Str ''B''), (''email'', Str [])]"
  let ?c = "[(''FirstName'', Str ''A''), (''LastName'', Str ''B'')]"
  let ?w = "signed_in None"
  let ?run = "createContact silent ?d ?w"
  have nn: "?d \<noteq> Undefined" "?d \<noteq> Null" by simp_all
  from createContact_payload [OF nn, THEN conjunct1]
  obtain contact where rec: "contactRecord ?d = Inr contact"
    and fields: "\<forall>remote_name input_name v.
            (remote_name, input_name) \<in> set contactFields \<and> js_get ?d input_name = Inr v \<longrightarrow>
              (v = Undefined \<or> v = Null \<or> v = Str [] \<longrightarrow> remote_name \<notin> fst ` set contact) \<and>
              (\<not> truthy v \<longrightarrow> remote_name \<notin> fst ` set contact) \<and>
              (truthy v \<longrightarrow> map_of contact remote_name = Some v)"
    and sends: "\<forall>remote s. truthy (accessToken s) \<longrightarrow>
              (\<exists>x rest. new_exchanges s (snd (createContact remote ?d s)) = x # rest
                 \<and> carries_bearer (fst x) \<and> req_method (fst x) = ''POST''
                 \<and> req_body (fst x) = Some (JsonBody (JSON_stringify (Obj contact))))"
    by (elim exE conjE) (rule that, assumption+)
  have eval: "contactRecord ?d = Inr ?c"
    using createContact_payload [OF nn, THEN conjunct2] .
  with rec have contact: "contact = ?c" by simp
  have email: "(''Email'', ''email'') \<in> set contactFields \<and> js_get ?d ''email'' = Inr (Str [])"
    by (simp add: contactFields_def)
  have first: "(''FirstName'', ''firstName'') \<in> set contactFields \<and> js_get ?d ''firstName'' = Inr (Str ''A'')"
    by (simp add: contactFields_def)
  have a: "''Email'' \<notin> fst ` set ?c"
    using fields [rule_format, OF email] unfolding contact by simp
  have b: "map_of ?c ''FirstName'' = Some (Str ''A'')"
    using fields [rule_format, OF first] unfolding contact by simp
  have tok: "truthy (accessToken ?w)" by (simp add: signed_in_def)
  have log: "new_exchanges ?w (snd ?run) = sent (snd ?run)"
    by (simp add: new_exchanges_def signed_in_def)
  have one: "length (sent (snd ?run)) = 1"
    by (simp add: createContact_def eval createRecord_def apiCall_def resolveCredentials_def
          signed_in_def apiRequest_def fetch_def silent_def)
  from sends [rule_format, OF tok, of silent] obtain x rest where
    x: "sent (snd ?run) = x # rest" "req_body (fst x) = Some (JsonBody (JSON_stringify (Obj ?c)))"
    unfolding log contact by blast
  with one have c: "map (\<lambda>x. req_body (fst x)) (sent (snd ?run)) = [Some (JsonBody (Json (Obj ?c)))]"
    by (simp add: JSON_stringify_def)
  show ?thesis
    by (intro conjI) (fact eval, fact a, fact b, fact c)
qed

lemma leadRecord_eq:
  assumes "leadData \<noteq> Undefined" and "leadData \<noteq> Null"
  shows "leadRecord leadData =
     Inr (filter (\<lambda>kv. truthy (snd kv))
        [(''FirstName'', read_or_undefined leadData ''firstName''),
         (''LastName'', read_or_undefined leadData ''lastName''),
         (''Email'', read_or_undefined leadData ''email''),
         (''Phone'', read_or_undefined leadData ''phone''),
         (''Company'', read_or_undefined leadData ''company''),
         (''Title'', read_or_undefined leadData ''title''),
         (''Status'', if truthy (read_or_undefined leadData ''status'')
                      then read_or_undefined leadData ''status'' else Str ''Open - Not Contacted''),
         (''LeadSource'', if truthy (read_or_undefined leadData ''source'')
                      then read_or_undefined leadData ''source'' else Str ''Email''),
         (''Description'', read_or_undefined leadData ''description'')])"
proof -
  let ?lit = "[(''FirstName'', read_or_undefined leadData ''firstName''),
         (''LastName'', read_or_undefined leadData ''lastName''),
         (''Email'', read_or_undefined leadData ''email''),
         (''Phone'', read_or_undefined leadData ''phone''),
         (''Company'', read_or_undefined leadData ''company''),
         (''Title'', read_or_undefined leadData ''title''),
         (''Status'', if truthy (read_or_undefined leadData ''status'')
                      then read_or_undefined leadData ''status'' else Str ''Open - Not Contacted''),
         (''LeadSource'', if truthy (read_or_undefined leadData ''source'')
                      then read_or_undefined leadData ''source'' else Str ''Email''),
         (''Description'', read_or_undefined leadData ''description'')]"
  have lit: "leadRecord leadData = Inr (removeEmptyFields ?lit)"
    by (simp add: leadRecord_def js_get_defined [OF assms] or_default_def)
  have "distinct (map fst ?lit)" by simp
  from removeEmptyFields_filter [OF this] show ?thesis
    unfolding lit by (simp only:)
qed

lemma leadRecord_undefined:
  assumes "leadData = Undefined \<or> leadData = Null"
  shows "leadRecord leadData = Inl TypeError"
  using assms by (auto simp: leadRecord_def)


lemma leadRecord_fields:
  assumes rec: "leadRecord leadData = Inr lead"
  shows "(\<forall>v. js_get leadData ''status'' = Inr v \<longrightarrow>
            map_of lead ''Status'' = Some (if truthy v then v else Str ''Open - Not Contacted''))
       \<and> (\<forall>v. js_get leadData ''source'' = Inr v \<longrightarrow>
            map_of lead ''LeadSource'' = Some (if truthy v then v else Str ''Email''))
       \<and> ''Status'' \<in> fst ` set lead \<and> ''LeadSource'' \<in> fst ` set lead
       \<and> (\<forall>remote_name input_name v.
            (remote_name, input_name) \<in> set leadFields \<and> js_get leadData input_name = Inr v \<longrightarrow>
              (v = Undefined \<or> v = Null \<or> v = Str [] \<longrightarrow> remote_name \<notin> fst ` set lead) \<and>
              (\<not> truthy v \<longrightarrow> remote_name \<notin> fst ` set lead) \<and>
              (truthy v \<longrightarrow> map_of lead remote_name = Some v))
       \<and> (\<forall>remote s r s'. createLead remote leadData s = (r, s') \<longrightarrow>
              (\<forall>x \<in> set (new_exchanges s s'). carries_bearer (fst x) \<longrightarrow>
                 req_body (fst x) = Some (JsonBody (JSON_stringify (Obj lead)))))"
proof -
  have nn: "leadData \<noteq> Undefined" "leadData \<noteq> Null"
    using rec leadRecord_undefined [of leadData] by auto
  let ?status = "if truthy (read_or_undefined leadData ''status'')
                 then read_or_undefined leadData ''status'' else Str ''Open - Not Contacted''"
  let ?source = "if truthy (read_or_undefined leadData ''source'')
                 then read_or_undefined leadData ''source'' else Str ''Email''"
  let ?lit = "[(''FirstName'', read_or_undefined leadData ''firstName''),
         (''LastName'', read_or_undefined leadData ''lastName''),
         (''Email'', read_or_undefined leadData ''email''),
         (''Phone'', read_or_undefined leadData ''phone''),
         (''Company'', read_or_undefined leadData ''company''),
         (''Title'', read_or_undefined leadData ''title''),
         (''Status'', ?status),
         (''LeadSource'', ?source),
         (''Description'', read_or_undefined leadData ''description'')]"
  have lead: "lead = filter (\<lambda>kv. truthy (snd kv)) ?lit"
    using leadRecord_eq [OF nn] unfolding rec by (simp only: sum.inject)
  have dist: "distinct (map fst ?lit)"
    by simp
  have look: "map_of lead k =
      (case map_of ?lit k of None \<Rightarrow> None | Some v \<Rightarrow> if truthy v then Some v else None)" for k
    unfolding lead by (rule map_of_filter_truthy [OF dist])
  have none: "(k \<notin> fst ` set lead) = (map_of lead k = None)" for k
    by (simp add: map_of_eq_None_iff)
  have status: "map_of lead ''Status'' = Some ?status"
    using look [of "''Status''"] by simp
  have source: "map_of lead ''LeadSource'' = Some ?source"
    using look [of "''LeadSource''"] by simp
  have c1: "\<forall>v. js_get leadData ''status'' = Inr v \<longrightarrow>
            map_of lead ''Status'' = Some (if truthy v then v else Str ''Open - Not Contacted'')"
    using status js_get_defined [OF nn, of "''status''"] by simp
  have c2: "\<forall>v. js_get leadData ''source'' = Inr v \<longrightarrow>
            map_of lead ''LeadSource'' = Some (if truthy v then v else Str ''Email'')"
    using source js_get_defined [OF nn, of "''source''"] by simp
  have c3: "''Status'' \<in> fst ` set lead"
    using status none [of "''Status''"] by simp
  have c4: "''LeadSource'' \<in> fst ` set lead"
    using source none [of "''LeadSource''"] by simp
  have lit: "map_of ?lit remote_name = Some v"
    if "(remote_name, input_name) \<in> set leadFields" "js_get leadData input_name = Inr v"
    for remote_name input_name v
  proof -
    have v: "v = read_or_undefined leadData input_name"
      using that(2) js_get_defined [OF nn, of input_name] by simp
    have "(remote_name, input_name) \<in> set leadFields" by (fact that(1))
    then have "(remote_name = ''FirstName'' \<and> input_name = ''firstName'')
        \<or> (remote_name = ''LastName'' \<and> input_name = ''lastName'')
        \<or> (remote_name = ''Email'' \<and> input_name = ''email'')
        \<or> (remote_name = ''Phone'' \<and> input_name = ''phone'')
        \<or> (remote_name = ''Company'' \<and> input_name = ''company'')
        \<or> (remote_name = ''Title'' \<and> input_name = ''title'')
        \<or> (remote_name = ''Description'' \<and> input_name = ''description'')"
      by (simp add: leadFields_def)
    then show ?thesis
      unfolding v by (elim disjE conjE; hypsubst; simp)
  qed
  have fields: "(v = Undefined \<or> v = Null \<or> v = Str [] \<longrightarrow> remote_name \<notin> fst ` set lead) \<and>
              (\<not> truthy v \<longrightarrow> remote_name \<notin> fst ` set lead) \<and>
              (truthy v \<longrightarrow> map_of lead remote_name = Some v)"
    if "(remote_name, input_name) \<in> set leadFields" "js_get leadData input_name = Inr v"
    for remote_name input_name v
    unfolding none using look [of remote_name] lit [OF that] by auto
  have c5: "\<forall>remote_name input_name v.
            (remote_name, input_name) \<in> set leadFields \<and> js_get leadData input_name = Inr v \<longrightarrow>
              (v = Undefined \<or> v = Null \<or> v = Str [] \<longrightarrow> remote_name \<notin> fst ` set lead) \<and>
              (\<not> truthy v \<longrightarrow> remote_name \<notin> fst ` set lead) \<and>
              (truthy v \<longrightarrow> map_of lead remote_name = Some v)"
    by (intro allI impI, elim conjE, rule fields)
  have wire: "req_body (fst x) = Some (JsonBody (JSON_stringify (Obj lead)))"
    if "createLead remote leadData s = (r, s')" "x \<in> set (new_exchanges s s')"
       "carries_bearer (fst x)" for remote s r s' x
    using that createRecord_bodies [of remote "''Lead''" lead s r s' x]
    by (simp add: createLead_def rec)
  have c6: "\<forall>remote s r s'. createLead remote leadData s = (r, s') \<longrightarrow>
              (\<forall>x \<in> set (new_exchanges s s'). carries_bearer (fst x) \<longrightarrow>
                 req_body (fst x) = Some (JsonBody (JSON_stringify (Obj lead))))"
    by (intro allI impI ballI, rule wire)
  show ?thesis
    by (intro conjI) (fact c1, fact c2, fact c3, fact c4, fact c5, fact c6)
qed

text \<open>
  C10. For every argument that is neither \<open>null\<close> nor \<open>undefined\<close> (on those the first
  property read raises, lemma \<open>leadRecord_undefined\<close>), \<open>createLead\<close> builds a record, and
  the record has \<open>Status\<close> and \<open>LeadSource\<close>: \<open>Status\<close> is the input \<open>status\<close> when that
  is not empty (truthy) and \<open>'Open - Not Contacted'\<close> otherwise, \<open>LeadSource\<close> is the input
  \<open>source\<close> when that is not empty and \<open>'Email'\<close> otherwise. Each of the seven other
  fields is left out when its input is absent, \<open>null\<close> or empty, and is in the record with
  its value otherwise; the record has no other keys and no empty value. Every API request
  the call sends has the JSON text of that record as its body, and a service that holds a
  token does send it: the first exchange of the call is a \<open>POST\<close> with the bearer
  credential and that body.
\<close>

theorem createLead_payload:
  assumes "leadData \<noteq> Undefined" and "leadData \<noteq> Null"
  shows "\<exists>lead. leadRecord leadData = Inr lead
       \<and> (\<forall>v. js_get leadData ''status'' = Inr v \<longrightarrow>
            map_of lead ''Status'' = Some (if truthy v then v else Str ''Open - Not Contacted''))
       \<and> (\<forall>v. js_get leadData ''source'' = Inr v \<longrightarrow>
            map_of lead ''LeadSource'' = Some (if truthy v then v else Str ''Email''))
       \<and> ''Status'' \<in> fst ` set lead \<and> ''LeadSource'' \<in> fst ` set lead
       \<and> (\<forall>remote_name input_name v.
            (remote_name, input_name) \<in> set leadFields \<and> js_get leadData input_name = Inr v \<longrightarrow>
              (v = Undefined \<or> v = Null \<or> v = Str [] \<longrightarrow> remote_name \<notin> fst ` set lead) \<and>
              (\<not> truthy v \<longrightarrow> remote_name \<notin> fst ` set lead) \<and>
              (truthy v \<longrightarrow> map_of lead remote_name = Some v))
       \<and> (\<forall>kv \<in> set lead. truthy (snd kv)
              \<and> fst kv \<in> insert ''Status'' (insert ''LeadSource'' (fst ` set leadFields)))
       \<and> (\<forall>remote s r s'. createLead remote leadData s = (r, s') \<longrightarrow>
              (\<forall>x \<in> set (new_exchanges s s'). carries_bearer (fst x) \<longrightarrow>
                 req_body (fst x) = Some (JsonBody (JSON_stringify (Obj lead)))))
       \<and> (\<forall>remote s. truthy (accessToken s) \<longrightarrow>
              (\<exists>x rest. new_exchanges s (snd (createLead remote leadData s)) = x # rest
                 \<and> carries_bearer (fst x) \<and> req_method (fst x) = ''POST''
                 \<and> req_body (fst x) = Some (JsonBody (JSON_stringify (Obj lead)))))"
proof -
  let ?lit = "[(''FirstName'', read_or_undefined leadData ''firstName''),
         (''LastName'', read_or_undefined leadData ''lastName''),
         (''Email'', read_or_undefined leadData ''email''),
         (''Phone'', read_or_undefined leadData ''phone''),
         (''Company'', read_or_undefined leadData ''company''),
         (''Title'', read_or_undefined leadData ''title''),
         (''Status'', if truthy (read_or_undefined leadData ''status'')
                      then read_or_undefined leadData ''status'' else Str ''Open - Not Contacted''),
         (''LeadSource'', if truthy (read_or_undefined leadData ''source'')
                      then read_or_undefined leadData ''source'' else Str ''Email''),
         (''Description'', read_or_undefined leadData ''description'')]"
  define lead where "lead = filter (\<lambda>kv. truthy (snd kv)) ?lit"
  have rec: "leadRecord leadData = Inr lead"
    unfolding lead_def by (rule leadRecord_eq [OF assms])
  note fields = leadRecord_fields [OF rec]
  have keys: "fst ` set ?lit \<subseteq> insert ''Status'' (insert ''LeadSource'' (fst ` set leadFields))"
    by (simp add: leadFields_def)
  have vals: "\<forall>kv \<in> set lead. truthy (snd kv)
              \<and> fst kv \<in> insert ''Status'' (insert ''LeadSource'' (fst ` set leadFields))"
  proof
    fix kv
    assume "kv \<in> set lead"
    then have "truthy (snd kv)" "fst kv \<in> fst ` set ?lit"
      unfolding lead_def by (simp_all only: set_filter mem_Collect_eq imageI)
    with keys show "truthy (snd kv)
              \<and> fst kv \<in> insert ''Status'' (insert ''LeadSource'' (fst ` set leadFields))"
      by blast
  qed
  have sends: "\<forall>remote s. truthy (accessToken s) \<longrightarrow>
              (\<exists>x rest. new_exchanges s (snd (createLead remote leadData s)) = x # rest
                 \<and> carries_bearer (fst x) \<and> req_method (fst x) = ''POST''
                 \<and> req_body (fst x) = Some (JsonBody (JSON_stringify (Obj lead))))"
  proof (intro allI impI)
    fix remote :: remote and s :: world
    assume tok: "truthy (accessToken s)"
    have "createLead remote leadData s = createRecord remote ''Lead'' (Obj lead) s"
      by (simp add: createLead_def rec)
    with createRecord_first_request [OF tok, of remote "''Lead''" lead]
    show "\<exists>x rest. new_exchanges s (snd (createLead remote leadData s)) = x # rest
                 \<and> carries_bearer (fst x) \<and> req_method (fst x) = ''POST''
                 \<and> req_body (fst x) = Some (JsonBody (JSON_stringify (Obj lead)))"
      by (simp only:)
  qed
  show ?thesis
    by (intro conjI exI [of _ lead])
       (fact rec, fact fields [THEN conjunct1],
        fact fields [THEN conjunct2, THEN conjunct1],
        fact fields [THEN conjunct2, THEN conjunct2, THEN conjunct1],
        fact fields [THEN conjunct2, THEN conjunct2, THEN conjunct2, THEN conjunct1],
        fact fields [THEN conjunct2, THEN conjunct2, THEN conjunct2, THEN conjunct2, THEN conjunct1],
        fact vals,
        fact fields [THEN conjunct2, THEN conjunct2, THEN conjunct2, THEN conjunct2, THEN conjunct2],
        fact sends)
qed

theorem createLead_payload_witness:
  "leadRecord (Obj [(''lastName'', Str ''B''), (''company'', Str []), (''source'', Str ''Web'')])
     = Inr [(''LastName'', Str ''B''), (''Status'', Str ''Open - Not Contacted''),
            (''LeadSource'', Str ''Web'')]
   \<and> map_of [(''LastName'', Str ''B''), (''Status'', Str ''Open - Not Contacted''),
              (''LeadSource'', Str ''Web'')] ''Status'' = Some (Str ''Open - Not Contacted'')
   \<and> map_of [(''LastName'', Str ''B''), (''Status'', Str ''Open - Not Contacted''),
              (''LeadSource'', Str ''Web'')] ''LeadSource'' = Some (Str ''Web'')
   \<and> ''Company'' \<notin> fst ` set [(''LastName'', Str ''B''), (''Status'', Str ''Open - Not Contacted''),
              (''LeadSource'', Str ''Web'')]
   \<and> map (\<lambda>x. req_body (fst x))
        (sent (snd (createLead silent
           (Obj [(''lastName'', Str ''B''), (''company'', Str []), (''source'', Str ''Web'')])
           (signed_in None))))
     = [Some (JsonBody (Json (Obj [(''LastName'', Str ''B''), (''Status'', Str ''Open - Not Contacted''),
            (''LeadSource'', Str ''Web'')])))]"
proof -
  let ?d = "Obj [(''lastName'', Str ''B''), (''company'', Str []), (''source'', Str ''Web'')]"
  let ?c = "[(''LastName'', Str ''B''), (''Status'', Str ''Open - Not Contacted''),
             (''LeadSource'', Str ''Web'')]"
  let ?w = "signed_in None"
  let ?run = "createLead silent ?d ?w"
  have nn: "?d \<noteq> Undefined" "?d \<noteq> Null" by simp_all
  from createLead_payload [OF nn]
  obtain lead where rec: "leadRecord ?d = Inr lead"
    and status: "\<forall>v. js_get ?d ''status'' = Inr v \<longrightarrow>
            map_of lead ''Status'' = Some (if truthy v then v else Str ''Open - Not Contacted'')"
    and source: "\<forall>v. js_get ?d ''source'' = Inr v \<longrightarrow>
            map_of lead ''LeadSource'' = Some (if truthy v then v else Str ''Email'')"
    and fields: "\<forall>remote_name input_name v.
            (remote_name, input_name) \<in> set leadFields \<and> js_get ?d input_name = Inr v \<longrightarrow>
              (v = Undefined \<or> v = Null \<or> v = Str [] \<longrightarrow> remote_name \<notin> fst ` set lead) \<and>
              (\<not> truthy v \<longrightarrow> remote_name \<notin> fst ` set lead) \<and>
              (truthy v \<longrightarrow> map_of lead remote_name = Some v)"
    and sends: "\<forall>remote s. truthy (accessToken s) \<longrightarrow>
              (\<exists>x rest. new_exchanges s (snd (createLead remote ?d s)) = x # rest
                 \<and> carries_bearer (fst x) \<and> req_method (fst x) = ''POST''
                 \<and> req_body (fst x) = Some (JsonBody (JSON_stringify (Obj lead))))"
    by (elim exE conjE) (rule that, assumption+)
  have eval: "leadRecord ?d = Inr ?c"
    by (simp add: leadRecord_def or_default_def removeEmptyFields_def js_delete_def)
  with rec have lead: "lead = ?c" by simp
  have st: "js_get ?d ''status'' = Inr Undefined" by simp
  have so: "js_get ?d ''source'' = Inr (Str ''Web'')" by simp
  have company: "(''Company'', ''company'') \<in> set leadFields \<and> js_get ?d ''company'' = Inr (Str [])"
    by (simp add: leadFields_def)
  have a: "map_of ?c ''Status'' = Some (Str ''Open - Not Contacted'')"
    using status [rule_format, OF st] unfolding lead by simp
  have b: "map_of ?c ''LeadSource'' = Some (Str ''Web'')"
    using source [rule_format, OF so] unfolding lead by simp
  have c: "''Company'' \<notin> fst ` set ?c"
    using fields [rule_format, OF company] unfolding lead by simp
  have tok: "truthy (accessToken ?w)" by (simp add: signed_in_def)
  have log: "new_exchanges ?w (snd ?run) = sent (snd ?run)"
    by (simp add: new_exchanges_def signed_in_def)
  have one: "length (sent (snd ?run)) = 1"
    by (simp add: createLead_def eval createRecord_def apiCall_def resolveCredentials_def
          signed_in_def apiRequest_def fetch_def silent_def)
  from sends [rule_format, OF tok, of silent] obtain x rest where
    x: "sent (snd ?run) = x # rest" "req_body (fst x) = Some (JsonBody (JSON_stringify (Obj ?c)))"
    unfolding log lead by blast
  with one have d: "map (\<lambda>x. req_body (fst x)) (sent (snd ?run)) = [Some (JsonBody (Json (Obj ?c)))]"
    by (simp add: JSON_stringify_def)
  show ?thesis
    by (intro conjI) (fact eval, fact a, fact b, fact c, fact d)
qed

section \<open>Partial failure in findRelatedRecords (C1)\<close>

lemmas query_evals = apiCall_def resolveCredentials_def signed_in_def apiRequest_def fetch_def
  carries_bearer_def ok_def query_def encodeURIComponent_def unreserved_def percent_def
  leadQuery_def contactQuery_def quoteList_def nl_def apiVersion_def
  leads_only_def lead_query_url_def one_record_def

text \<open>
  C1 as stated fails: on a remote where the Contact query for \<open>x@y.com\<close> fails and the
  Lead query for \<open>x@y.com\<close> succeeds with one lead, \<open>findRelatedRecords(["x@y.com"])\<close>
  returns all four groups empty. The queries share one \<open>try\<close> block, so the failure of the
  Contact query ends the block before the Lead query is sent.
\<close>

theorem findRelatedRecords_leads_counterexample:
  "fst (query leads_only (contactQuery (quoteList [Str ''x@y.com''])) (signed_in None))
     = Inl (ApiCallFailed 500 (Json (Obj [])))
   \<and> fst (query leads_only (leadQuery (quoteList [Str ''x@y.com''])) (signed_in None))
     = Inr (Obj [(''records'', Arr [a_lead])])
   \<and> fst (findRelatedRecords leads_only (Arr [Str ''x@y.com'']) (signed_in None)) = Inr emptyResults
   \<and> leads emptyResults = Arr []"
  by (simp add: query_evals findRelatedRecords_def findRelatedBody_def emptyResults_def)

lemma js_get_truthy: "truthy v \<Longrightarrow> \<not> isl (js_get v k)"
  by (cases v) simp_all

lemma findRelatedRecords_returns:
  "\<exists>res s'. findRelatedRecords remote emailAddresses s = (Inr res, s')"
proof (cases "truthy emailAddresses")
  case False
  then show ?thesis by (simp add: findRelatedRecords_def)
next
  case True
  then obtain len where len: "js_get emailAddresses ''length'' = Inr len"
    using js_get_truthy [of emailAddresses "''length''"]
    by (cases "js_get emailAddresses ''length''") simp_all
  obtain e res s1 where body: "findRelatedBody remote emailAddresses emptyResults s = (e, res, s1)"
    by (cases "findRelatedBody remote emailAddresses emptyResults s")
  show ?thesis
    by (cases e) (simp_all add: findRelatedRecords_def True len body)
qed

lemma findRelatedRecords_contact_failure:
  assumes "emails \<noteq> []"
      and "query remote (contactQuery (quoteList emails)) s = (Inl err, s1)"
  shows "findRelatedRecords remote (Arr emails) s = (Inr emptyResults, s1)"
  using assms by (simp add: findRelatedRecords_def findRelatedBody_def)

lemma relatedAccounts_contacts:
  "contacts (fst (snd (relatedAccounts remote accountIds res s))) = contacts res"
  by (simp add: relatedAccounts_def Let_def split: prod.splits sum.splits)

lemma relatedToContacts_contacts:
  assumes "js_get contactResult ''records'' = Inr records" and "truthy records"
  shows "contacts (fst (snd (relatedToContacts remote contactResult res s))) = records"
  using assms relatedAccounts_contacts
  by (simp add: relatedToContacts_def Let_def split: sum.splits)

lemma findRelatedBody_contacts:
  assumes "query remote (contactQuery (quoteList emails)) s = (Inr contactResult, s1)"
      and "js_get contactResult ''records'' = Inr records" and "truthy records"
  shows "contacts (fst (snd (findRelatedBody remote (Arr emails) res s))) = records"
proof -
  obtain e res1 s2 where rc: "relatedToContacts remote contactResult res s1 = (e, res1, s2)"
    by (cases "relatedToContacts remote contactResult res s1")
  have "contacts res1 = records"
    using relatedToContacts_contacts [OF assms(2,3), of remote res s1] rc by simp
  then show ?thesis
    by (simp add: findRelatedBody_def assms(1) rc split: sum.splits prod.splits)
qed

lemma findRelatedRecords_contacts:
  assumes "emails \<noteq> []"
      and "query remote (contactQuery (quoteList emails)) s = (Inr contactResult, s1)"
      and "js_get contactResult ''records'' = Inr records" and "truthy records"
  shows "\<exists>res s'. findRelatedRecords remote (Arr emails) s = (Inr res, s') \<and> contacts res = records"
proof -
  obtain e res s2 where body: "findRelatedBody remote (Arr emails) emptyResults s = (e, res, s2)"
    by (cases "findRelatedBody remote (Arr emails) emptyResults s")
  have "contacts res = records"
    using findRelatedBody_contacts [OF assms(2-4), of emptyResults] body by simp
  with assms(1) show ?thesis
    by (cases e) (simp_all add: findRelatedRecords_def body)
qed

lemma relatedAccounts_accounts:
  assumes "query remote (accountQuery (quoteList (unique [] accountIds))) s = (Inr accountResult, s2)"
      and "js_get accountResult ''records'' = Inr accountRecords" and "truthy accountRecords"
  shows "accounts (fst (snd (relatedAccounts remote accountIds res s))) = accountRecords"
  by (simp add: relatedAccounts_def Let_def assms split: prod.splits sum.splits)

lemma relatedAccounts_opportunities:
  assumes "query remote (accountQuery (quoteList (unique [] accountIds))) s = (Inr accountResult, s2)"
      and "js_get accountResult ''records'' = Inr accountRecords"
      and "query remote (oppQuery (quoteList (unique [] accountIds))) s2 = (Inr oppResult, s3)"
      and "js_get oppResult ''records'' = Inr oppRecords" and "truthy oppRecords"
  shows "relatedAccounts remote accountIds res s =
           (Inr (),
            (if truthy accountRecords then res\<lparr>accounts := accountRecords\<rparr> else res)
              \<lparr>opportunities := oppRecords\<rparr>,
            s3)"
  by (simp add: relatedAccounts_def Let_def assms)

lemma relatedToContacts_accounts:
  assumes "js_get contactResult ''records'' = Inr records" and "truthy records"
      and "js_array records = Inr cs" and "filterE hasAccountId cs = Inr withAccount"
      and "mapE accountIdOf withAccount = Inr accountIds" and "accountIds \<noteq> []"
  shows "relatedToContacts remote contactResult res s =
           relatedAccounts remote accountIds (res\<lparr>contacts := records\<rparr>) s"
  by (simp add: relatedToContacts_def Let_def assms)

lemma findRelatedBody_keeps:
  assumes "query remote (contactQuery (quoteList emails)) s = (Inr contactResult, s1)"
      and "relatedToContacts remote contactResult res s1 = (e, res1, s2)"
  shows "contacts (fst (snd (findRelatedBody remote (Arr emails) res s))) = contacts res1
       \<and> accounts (fst (snd (findRelatedBody remote (Arr emails) res s))) = accounts res1
       \<and> opportunities (fst (snd (findRelatedBody remote (Arr emails) res s))) = opportunities res1"
  by (simp add: findRelatedBody_def assms split: sum.splits prod.splits)

lemma findRelatedRecords_body:
  assumes "emails \<noteq> []"
  shows "findRelatedRecords remote (Arr emails) s =
           (Inr (fst (snd (findRelatedBody remote (Arr emails) emptyResults s))),
            snd (snd (findRelatedBody remote (Arr emails) emptyResults s)))"
  using assms by (simp add: findRelatedRecords_def split: prod.splits sum.splits)

lemma findRelatedRecords_accounts:
  assumes "emails \<noteq> []"
      and "query remote (contactQuery (quoteList emails)) s = (Inr contactResult, s1)"
      and "js_get contactResult ''records'' = Inr records" and "truthy records"
      and "js_array records = Inr cs" and "filterE hasAccountId cs = Inr withAccount"
      and "mapE accountIdOf withAccount = Inr accountIds" and "accountIds \<noteq> []"
      and "query remote (accountQuery (quoteList (unique [] accountIds))) s1 = (Inr accountResult, s2)"
      and "js_get accountResult ''records'' = Inr accountRecords" and "truthy accountRecords"
  shows "\<exists>res s'. findRelatedRecords remote (Arr emails) s = (Inr res, s')
           \<and> contacts res = records \<and> accounts res = accountRecords"
proof -
  let ?res0 = "emptyResults\<lparr>contacts := records\<rparr>"
  obtain e res1 sx where ra: "relatedAccounts remote accountIds ?res0 s1 = (e, res1, sx)"
    by (cases "relatedAccounts remote accountIds ?res0 s1")
  have rc: "relatedToContacts remote contactResult emptyResults s1 = (e, res1, sx)"
    using relatedToContacts_accounts [OF assms(3-8), of remote emptyResults s1] ra by simp
  have "accounts res1 = accountRecords"
    using relatedAccounts_accounts [OF assms(9-11), of ?res0] ra by simp
  moreover have "contacts res1 = records"
    using relatedAccounts_contacts [of remote accountIds ?res0 s1] ra by simp
  ultimately show ?thesis
    using findRelatedBody_keeps [OF assms(2) rc] findRelatedRecords_body [OF assms(1), of remote s]
    by simp
qed

lemma findRelatedRecords_opportunities:
  assumes "emails \<noteq> []"
      and "query remote (contactQuery (quoteList emails)) s = (Inr contactResult, s1)"
      and "js_get contactResult ''records'' = Inr records" and "truthy records"
      and "js_array records = Inr cs" and "filterE hasAccountId cs = Inr withAccount"
      and "mapE accountIdOf withAccount = Inr accountIds" and "accountIds \<noteq> []"
      and "query remote (accountQuery (quoteList (unique [] accountIds))) s1 = (Inr accountResult, s2)"
      and "js_get accountResult ''records'' = Inr accountRecords"
      and "query remote (oppQuery (quoteList (unique [] accountIds))) s2 = (Inr oppResult, s3)"
      and "js_get oppResult ''records'' = Inr oppRecords" and "truthy oppRecords"
  shows "\<exists>res s'. findRelatedRecords remote (Arr emails) s = (Inr res, s')
           \<and> contacts res = records \<and> (truthy accountRecords \<longrightarrow> accounts res = accountRecords)
           \<and> opportunities res = oppRecords"
proof -
  let ?res0 = "emptyResults\<lparr>contacts := records\<rparr>"
  let ?res1 = "(if truthy accountRecords then ?res0\<lparr>accounts := accountRecords\<rparr> else ?res0)
                 \<lparr>opportunities := oppRecords\<rparr>"
  have rc: "relatedToContacts remote contactResult emptyResults s1 = (Inr (), ?res1, s3)"
    using relatedToContacts_accounts [OF assms(3-8), of remote emptyResults s1]
          relatedAccounts_opportunities [OF assms(9-13), of ?res0]
    by simp
  show ?thesis
    using findRelatedBody_keeps [OF assms(2) rc] findRelatedRecords_body [OF assms(1), of remote s]
    by simp
qed

lemma findRelatedRecords_all:
  assumes "emails \<noteq> []"
      and "query remote (contactQuery (quoteList emails)) s = (Inr contactResult, s1)"
      and "js_get contactResult ''records'' = Inr records" and "truthy records"
      and "js_array records = Inr cs" and "filterE hasAccountId cs = Inr withAccount"
      and "mapE accountIdOf withAccount = Inr accountIds" and "accountIds \<noteq> []"
      and "query remote (accountQuery (quoteList (unique [] accountIds))) s1 = (Inr accountResult, s2)"
      and "js_get accountResult ''records'' = Inr accountRecords" and "truthy accountRecords"
      and "query remote (oppQuery (quoteList (unique [] accountIds))) s2 = (Inr oppResult, s3)"
      and "js_get oppResult ''records'' = Inr oppRecords" and "truthy oppRecords"
      and "query remote (leadQuery (quoteList emails)) s3 = (Inr leadResult, s4)"
      and "js_get leadResult ''records'' = Inr leadRecords" and "truthy leadRecords"
  shows "findRelatedRecords remote (Arr emails) s =
           (Inr \<lparr>contacts = records, leads = leadRecords, accounts = accountRecords,
                 opportunities = oppRecords\<rparr>, s4)"
proof -
  let ?res0 = "emptyResults\<lparr>contacts := records\<rparr>"
  let ?res1 = "?res0\<lparr>accounts := accountRecords, opportunities := oppRecords\<rparr>"
  have rc: "relatedToContacts remote contactResult emptyResults s1 = (Inr (), ?res1, s3)"
    using relatedToContacts_accounts [OF assms(3-8), of remote emptyResults s1]
          relatedAccounts_opportunities [OF assms(9,10,12-14), of ?res0] assms(11)
    by simp
  have "findRelatedBody remote (Arr emails) emptyResults s = (Inr (), ?res1\<lparr>leads := leadRecords\<rparr>, s4)"
    by (simp add: findRelatedBody_def assms(2) rc assms(15-17))
  then show ?thesis
    using findRelatedRecords_body [OF assms(1), of remote s]
    by (simp add: emptyResults_def)
qed

text \<open>
  C1, amended. For every non-empty array of addresses, if the Contact query fails, the
  result has all four groups empty and the world is as the failed Contact query left it:
  no Lead query is sent. For every argument whatever, \<open>findRelatedRecords\<close> returns a result
  and never raises. A group populated before a failure is returned, whatever fails later:
  when the Contact query succeeds with records, they are the \<open>contacts\<close> of the result;
  when the Account query then succeeds with records, they are its \<open>accounts\<close>; when the
  Opportunity query then succeeds with records, they are its \<open>opportunities\<close>. When the
  Lead query succeeds as well, the result is the four groups of records.
\<close>

theorem findRelatedRecords_partial_failure:
  "(\<forall>emails err s1.
       emails \<noteq> [] \<and> query remote (contactQuery (quoteList emails)) s = (Inl err, s1) \<longrightarrow>
       findRelatedRecords remote (Arr emails) s = (Inr emptyResults, s1))
   \<and> (\<exists>res s'. findRelatedRecords remote emailAddresses s = (Inr res, s'))
   \<and> (\<forall>emails contactResult s1 records.
       emails \<noteq> [] \<and> query remote (contactQuery (quoteList emails)) s = (Inr contactResult, s1)
       \<and> js_get contactResult ''records'' = Inr records \<and> truthy records \<longrightarrow>
       (\<exists>res s'. findRelatedRecords remote (Arr emails) s = (Inr res, s') \<and> contacts res = records))
   \<and> (\<forall>emails contactResult s1 records cs withAccount accountIds accountResult s2 accountRecords.
       emails \<noteq> [] \<and> query remote (contactQuery (quoteList emails)) s = (Inr contactResult, s1)
       \<and> js_get contactResult ''records'' = Inr records \<and> truthy records
       \<and> js_array records = Inr cs \<and> filterE hasAccountId cs = Inr withAccount
       \<and> mapE accountIdOf withAccount = Inr accountIds \<and> accountIds \<noteq> []
       \<and> query remote (accountQuery (quoteList (unique [] accountIds))) s1 = (Inr accountResult, s2)
       \<and> js_get accountResult ''records'' = Inr accountRecords \<and> truthy accountRecords \<longrightarrow>
       (\<exists>res s'. findRelatedRecords remote (Arr emails) s = (Inr res, s')
           \<and> contacts res = records \<and> accounts res = accountRecords))
   \<and> (\<forall>emails contactResult s1 records cs withAccount accountIds accountResult s2 accountRecords
         oppResult s3 oppRecords.
       emails \<noteq> [] \<and> query remote (contactQuery (quoteList emails)) s = (Inr contactResult, s1)
       \<and> js_get contactResult ''records'' = Inr records \<and> truthy records
       \<and> js_array records = Inr cs \<and> filterE hasAccountId cs = Inr withAccount
       \<and> mapE accountIdOf withAccount = Inr accountIds \<and> accountIds \<noteq> []
       \<and> query remote (accountQuery (quoteList (unique [] accountIds))) s1 = (Inr accountResult, s2)
       \<and> js_get accountResult ''records'' = Inr accountRecords
       \<and> query remote (oppQuery (quoteList (unique [] accountIds))) s2 = (Inr oppResult, s3)
       \<and> js_get oppResult ''records'' = Inr oppRecords \<and> truthy oppRecords \<longrightarrow>
       (\<exists>res s'. findRelatedRecords remote (Arr emails) s = (Inr res, s')
           \<and> contacts res = records \<and> (truthy accountRecords \<longrightarrow> accounts res = accountRecords)
           \<and> opportunities res = oppRecords))
   \<and> (\<forall>emails contactResult s1 records cs withAccount accountIds accountResult s2 accountRecords
         oppResult s3 oppRecords leadResult s4 leadRecords.
       emails \<noteq> [] \<and> query remote (contactQuery (quoteList emails)) s = (Inr contactResult, s1)
       \<and> js_get contactResult ''records'' = Inr records \<and> truthy records
       \<and> js_array records = Inr cs \<and> filterE hasAccountId cs = Inr withAccount
       \<and> mapE accountIdOf withAccount = Inr accountIds \<and> accountIds \<noteq> []
       \<and> query remote (accountQuery (quoteList (unique [] accountIds))) s1 = (Inr accountResult, s2)
       \<and> js_get accountResult ''records'' = Inr accountRecords \<and> truthy accountRecords
       \<and> query remote (oppQuery (quoteList (unique [] accountIds))) s2 = (Inr oppResult, s3)
       \<and> js_get oppResult ''records'' = Inr oppRecords \<and> truthy oppRecords
       \<and> query remote (leadQuery (quoteList emails)) s3 = (Inr leadResult, s4)
       \<and> js_get leadResult ''records'' = Inr leadRecords \<and> truthy leadRecords \<longrightarrow>
       findRelatedRecords remote (Arr emails) s =
         (Inr \<lparr>contacts = records, leads = leadRecords, accounts = accountRecords,
               opportunities = oppRecords\<rparr>, s4))"
proof (intro conjI allI impI; (elim conjE)?)
  fix emails err s1
  assume "emails \<noteq> []" "query remote (contactQuery (quoteList emails)) s = (Inl err, s1)"
  then show "findRelatedRecords remote (Arr emails) s = (Inr emptyResults, s1)"
    by (rule findRelatedRecords_contact_failure)
next
  show "\<exists>res s'. findRelatedRecords remote emailAddresses s = (Inr res, s')"
    by (rule findRelatedRecords_returns)
next
  fix emails contactResult s1 records
  assume "emails \<noteq> []" "query remote (contactQuery (quoteList emails)) s = (Inr contactResult, s1)"
    "js_get contactResult ''records'' = Inr records" "truthy records"
  then show "\<exists>res s'. findRelatedRecords remote (Arr emails) s = (Inr res, s') \<and> contacts res = records"
    by (rule findRelatedRecords_contacts)
next
  fix emails contactResult s1 records cs withAccount accountIds accountResult s2 accountRecords
  assume "emails \<noteq> []" "query remote (contactQuery (quoteList emails)) s = (Inr contactResult, s1)"
    "js_get contactResult ''records'' = Inr records" "truthy records"
    "js_array records = Inr cs" "filterE hasAccountId cs = Inr withAccount"
    "mapE accountIdOf withAccount = Inr accountIds" "accountIds \<noteq> []"
    "query remote (accountQuery (quoteList (unique [] accountIds))) s1 = (Inr accountResult, s2)"
    "js_get accountResult ''records'' = Inr accountRecords" "truthy accountRecords"
  then show "\<exists>res s'. findRelatedRecords remote (Arr emails) s = (Inr res, s')
           \<and> contacts res = records \<and> accounts res = accountRecords"
    by (rule findRelatedRecords_accounts)
next
  fix emails contactResult s1 records cs withAccount accountIds accountResult s2 accountRecords
    oppResult s3 oppRecords
  assume "emails \<noteq> []" "query remote (contactQuery (quoteList emails)) s = (Inr contactResult, s1)"
    "js_get contactResult ''records'' = Inr records" "truthy records"
    "js_array records = Inr cs" "filterE hasAccountId cs = Inr withAccount"
    "mapE accountIdOf withAccount = Inr accountIds" "accountIds \<noteq> []"
    "query remote (accountQuery (quoteList (unique [] accountIds))) s1 = (Inr accountResult, s2)"
    "js_get accountResult ''records'' = Inr accountRecords"
    "query remote (oppQuery (quoteList (unique [] accountIds))) s2 = (Inr oppResult, s3)"
    "js_get oppResult ''records'' = Inr oppRecords" "truthy oppRecords"
  then show "\<exists>res s'. findRelatedRecords remote (Arr emails) s = (Inr res, s')
           \<and> contacts res = records \<and> (truthy accountRecords \<longrightarrow> accounts res = accountRecords)
           \<and> opportunities res = oppRecords"
    by (rule findRelatedRecords_opportunities)
next
  fix emails contactResult s1 records cs withAccount accountIds accountResult s2 accountRecords
    oppResult s3 oppRecords leadResult s4 leadRecords
  assume "emails \<noteq> []" "query remote (contactQuery (quoteList emails)) s = (Inr contactResult, s1)"
    "js_get contactResult ''records'' = Inr records" "truthy records"
    "js_array records = Inr cs" "filterE hasAccountId cs = Inr withAccount"
    "mapE accountIdOf withAccount = Inr accountIds" "accountIds \<noteq> []"
    "query remote (accountQuery (quoteList (unique [] accountIds))) s1 = (Inr accountResult, s2)"
    "js_get accountResult ''records'' = Inr accountRecords" "truthy accountRecords"
    "query remote (oppQuery (quoteList (unique [] accountIds))) s2 = (Inr oppResult, s3)"
    "js_get oppResult ''records'' = Inr oppRecords" "truthy oppRecords"
    "query remote (leadQuery (quoteList emails)) s3 = (Inr leadResult, s4)"
    "js_get leadResult ''records'' = Inr leadRecords" "truthy leadRecords"
  then show "findRelatedRecords remote (Arr emails) s =
         (Inr \<lparr>contacts = records, leads = leadRecords, accounts = accountRecords,
               opportunities = oppRecords\<rparr>, s4)"
    by (rule findRelatedRecords_all)
qed

theorem findRelatedRecords_partial_failure_witness:
  "findRelatedRecords leads_only (Arr [Str ''x@y.com'']) (signed_in None)
     = (Inr emptyResults,
        snd (query leads_only (contactQuery (quoteList [Str ''x@y.com''])) (signed_in None)))
   \<and> (\<exists>res s'. findRelatedRecords one_record (Arr [Str ''x@y.com'']) (signed_in None) = (Inr res, s')
         \<and> contacts res = Arr [a_contact])
   \<and> (\<exists>res s'. findRelatedRecords (answers_first 2) (Arr [Str ''x@y.com'']) (signed_in None) = (Inr res, s')
         \<and> contacts res = Arr [a_linked_contact] \<and> accounts res = Arr [a_linked_contact])
   \<and> (\<exists>res s'. findRelatedRecords (answers_first 3) (Arr [Str ''x@y.com'']) (signed_in None) = (Inr res, s')
         \<and> contacts res = Arr [a_linked_contact] \<and> accounts res = Arr [a_linked_contact]
         \<and> opportunities res = Arr [a_linked_contact])
   \<and> fst (findRelatedRecords (answers_first 4) (Arr [Str ''x@y.com'']) (signed_in None))
       = Inr \<lparr>contacts = Arr [a_linked_contact], leads = Arr [a_linked_contact],
              accounts = Arr [a_linked_contact], opportunities = Arr [a_linked_contact]\<rparr>"
proof -
  let ?w = "signed_in None"
  let ?e = "[Str ''x@y.com'']"
  let ?q = "contactQuery (quoteList ?e)"
  let ?ids = "[Str ''001A'']"
  let ?aq = "accountQuery (quoteList (unique [] ?ids))"
  let ?oq = "oppQuery (quoteList (unique [] ?ids))"
  let ?lq = "leadQuery (quoteList ?e)"
  let ?answer = "Obj [(''records'', Arr [a_linked_contact])]"
  have "fst (query leads_only ?q ?w) = Inl (ApiCallFailed 500 (Json (Obj [])))"
    by (simp add: query_evals)
  then have failed: "?e \<noteq> []
      \<and> query leads_only ?q ?w = (Inl (ApiCallFailed 500 (Json (Obj []))), snd (query leads_only ?q ?w))"
    by (simp add: prod_eq_iff)
  have "fst (query one_record ?q ?w) = Inr (Obj [(''records'', Arr [a_contact])])"
    by (simp add: query_evals)
  then have answered: "?e \<noteq> []
      \<and> query one_record ?q ?w = (Inr (Obj [(''records'', Arr [a_contact])]), snd (query one_record ?q ?w))
      \<and> js_get (Obj [(''records'', Arr [a_contact])]) ''records'' = Inr (Arr [a_contact])
      \<and> truthy (Arr [a_contact])"
    by (simp add: prod_eq_iff)
  have a: "findRelatedRecords leads_only (Arr ?e) ?w
     = (Inr emptyResults, snd (query leads_only ?q ?w))"
    by (rule findRelatedRecords_partial_failure [THEN conjunct1, rule_format, OF failed])
  have b: "\<exists>res s'. findRelatedRecords one_record (Arr ?e) ?w = (Inr res, s')
         \<and> contacts res = Arr [a_contact]"
    by (rule findRelatedRecords_partial_failure
          [THEN conjunct2, THEN conjunct2, THEN conjunct1, rule_format, OF answered])
  have ids: "js_get ?answer ''records'' = Inr (Arr [a_linked_contact]) \<and> truthy (Arr [a_linked_contact])
      \<and> js_array (Arr [a_linked_contact]) = Inr [a_linked_contact]
      \<and> filterE hasAccountId [a_linked_contact] = Inr [a_linked_contact]
      \<and> mapE accountIdOf [a_linked_contact] = Inr ?ids \<and> ?ids \<noteq> []"
    by (simp add: hasAccountId_def accountIdOf_def a_linked_contact_def)
  have q1: "query (answers_first n) ?q ?w = (Inr ?answer, snd (query (answers_first n) ?q ?w))"
    if "0 < n" for n
    using that by (simp add: prod_eq_iff apiCall_def resolveCredentials_def signed_in_def fetch_def
        ok_def query_def answers_first_def)
  have l1: "length (sent (snd (query (answers_first n) ?q ?w))) = 1
      \<and> truthy (accessToken (snd (query (answers_first n) ?q ?w)))" if "0 < n" for n
    using that by (simp add: apiCall_def resolveCredentials_def signed_in_def fetch_def
        ok_def query_def answers_first_def)
  let ?s1 = "\<lambda>n. snd (query (answers_first n) ?q ?w)"
  have q2: "query (answers_first n) ?aq (?s1 n) = (Inr ?answer, snd (query (answers_first n) ?aq (?s1 n)))"
    if "1 < n" for n
    using that l1 [of n] by (simp add: prod_eq_iff apiCall_def resolveCredentials_def fetch_def
        ok_def query_def answers_first_def)
  have l2: "length (sent (snd (query (answers_first n) ?aq (?s1 n)))) = 2
      \<and> truthy (accessToken (snd (query (answers_first n) ?aq (?s1 n))))" if "1 < n" for n
    using that l1 [of n] by (simp add: apiCall_def resolveCredentials_def fetch_def
        ok_def query_def answers_first_def)
  let ?s2 = "\<lambda>n. snd (query (answers_first n) ?aq (?s1 n))"
  have q3: "query (answers_first n) ?oq (?s2 n) = (Inr ?answer, snd (query (answers_first n) ?oq (?s2 n)))"
    if "2 < n" for n
    using that l2 [of n] by (simp add: prod_eq_iff apiCall_def resolveCredentials_def fetch_def
        ok_def query_def answers_first_def)
  have l3: "length (sent (snd (query (answers_first n) ?oq (?s2 n)))) = 3
      \<and> truthy (accessToken (snd (query (answers_first n) ?oq (?s2 n))))" if "2 < n" for n
    using that l2 [of n] by (simp add: apiCall_def resolveCredentials_def fetch_def
        ok_def query_def answers_first_def)
  let ?s3 = "\<lambda>n. snd (query (answers_first n) ?oq (?s2 n))"
  have q4: "query (answers_first n) ?lq (?s3 n) = (Inr ?answer, snd (query (answers_first n) ?lq (?s3 n)))"
    if "3 < n" for n
    using that l3 [of n] by (simp add: prod_eq_iff apiCall_def resolveCredentials_def fetch_def
        ok_def query_def answers_first_def)
  have ne: "?e \<noteq> []" by simp
  have c: "\<exists>res s'. findRelatedRecords (answers_first 2) (Arr ?e) ?w = (Inr res, s')
         \<and> contacts res = Arr [a_linked_contact] \<and> accounts res = Arr [a_linked_contact]"
    using findRelatedRecords_partial_failure
          [THEN conjunct2, THEN conjunct2, THEN conjunct2, THEN conjunct1, rule_format,
           of ?e "answers_first 2" ?w ?answer "?s1 2" "Arr [a_linked_contact]" "[a_linked_contact]"
              "[a_linked_contact]" ?ids ?answer "?s2 2" "Arr [a_linked_contact]"]
          ne q1 [of 2] q2 [of 2] ids
    by simp
  have d: "\<exists>res s'. findRelatedRecords (answers_first 3) (Arr ?e) ?w = (Inr res, s')
         \<and> contacts res = Arr [a_linked_contact] \<and> accounts res = Arr [a_linked_contact]
         \<and> opportunities res = Arr [a_linked_contact]"
    using findRelatedRecords_partial_failure
          [THEN conjunct2, THEN conjunct2, THEN conjunct2, THEN conjunct2, THEN conjunct1, rule_format,
           of ?e "answers_first 3" ?w ?answer "?s1 3" "Arr [a_linked_contact]" "[a_linked_contact]"
              "[a_linked_contact]" ?ids ?answer "?s2 3" "Arr [a_linked_contact]"
              ?answer "?s3 3" "Arr [a_linked_contact]"]
          ne q1 [of 3] q2 [of 3] q3 [of 3] ids
    by simp
  have e: "fst (findRelatedRecords (answers_first 4) (Arr ?e) ?w)
       = Inr \<lparr>contacts = Arr [a_linked_contact], leads = Arr [a_linked_contact],
              accounts = Arr [a_linked_contact], opportunities = Arr [a_linked_contact]\<rparr>"
    using findRelatedRecords_partial_failure
          [THEN conjunct2, THEN conjunct2, THEN conjunct2, THEN conjunct2, THEN conjunct2, rule_format,
           of ?e "answers_first 4" ?w ?answer "?s1 4" "Arr [a_linked_contact]" "[a_linked_contact]"
              "[a_linked_contact]" ?ids ?answer "?s2 4" "Arr [a_linked_contact]"
              ?answer "?s3 4" "Arr [a_linked_contact]"
              ?answer "snd (query (answers_first 4) ?lq (?s3 4))" "Arr [a_linked_contact]"]
          ne q1 [of 4] q2 [of 4] q3 [of 4] q4 [of 4] ids
    by simp
  show ?thesis
    by (intro conjI) (fact a, fact b, fact c, fact d, fact e)
qed

end
